theory Spec2Isabelle
  imports
    Complex_Main
    "HOL-Library.List_Lexorder"
    "HOL-Library.Char_ord"
    "HOL-Library.Product_Lexorder"
    "HOL-Library.Multiset"
begin

section \<open>Cells and columns\<close>

text \<open>
  The scripts work on pandas data frames. A frame is modelled as the list of its rows,
  in frame order, and a row as a record of its columns. Numbers are real numbers, so
  rounding of the machine floats is not part of the model.

  A cell of the automation weights and of the institutions source is either a number
  or missing (pandas \<^verbatim>\<open>NaN\<close>), which is \<open>None\<close> here. Cells that
  \<^verbatim>\<open>pd.to_numeric(..., errors="coerce")\<close> could not parse arrive as \<open>None\<close>. An
  infinite cell in these two sources is outside the model.
\<close>

type_synonym cell = "real option"

text \<open>
  The measured quantities that the cleaning script takes logarithms of, and the
  logarithms, are floats with the two infinities. \<^verbatim>\<open>read_csv\<close> and \<^verbatim>\<open>to_numeric\<close>
  read \<^verbatim>\<open>inf\<close> and \<^verbatim>\<open>-inf\<close> as such; pandas counts neither of them as missing, so
  they pass \<^verbatim>\<open>dropna\<close>; only \<open>NaN\<close> is missing.
\<close>

datatype fval = NaN | NegInf | PosInf | Fin real

fun dropna_vals :: "cell list \<Rightarrow> real list" where
  "dropna_vals [] = []"
| "dropna_vals (None # xs) = dropna_vals xs"
| "dropna_vals (Some x # xs) = x # dropna_vals xs"

text \<open>\<^verbatim>\<open>Series.sum()\<close> skips missing cells; the sum of no cells is 0.\<close>

definition pd_sum :: "cell list \<Rightarrow> real" where
  "pd_sum xs = sum_list (dropna_vals xs)"

text \<open>\<^verbatim>\<open>Series.mean()\<close> skips missing cells; the mean of no cells is missing.\<close>

definition pd_mean :: "cell list \<Rightarrow> cell" where
  "pd_mean xs =
     (case dropna_vals xs of
        [] \<Rightarrow> None
      | y # ys \<Rightarrow> Some (sum_list (y # ys) / real (length (y # ys))))"

definition pd_mul :: "cell \<Rightarrow> cell \<Rightarrow> cell" where
  "pd_mul a b = (case a of None \<Rightarrow> None | Some x \<Rightarrow> (case b of None \<Rightarrow> None | Some y \<Rightarrow> Some (x * y)))"

definition pd_sub :: "cell \<Rightarrow> cell \<Rightarrow> cell" where
  "pd_sub a b = (case a of None \<Rightarrow> None | Some x \<Rightarrow> (case b of None \<Rightarrow> None | Some y \<Rightarrow> Some (x - y)))"

section \<open>Crosswalk aggregation (2-crosswalk\_ind1990\_to\_nace2.py)\<close>

text \<open>
  \<open>wm\<close> is the frame of automation weights merged with the crosswalk: one row per
  detailed industry, with the NACE division it maps to.
\<close>

record wm_row =
  ind1990 :: string
  replaceability_ind :: cell
  w_ind :: cell
  nace2_num :: cell

definition manufacturing_only :: "wm_row list \<Rightarrow> wm_row list" where
  "manufacturing_only wm =
     filter (\<lambda>r. case nace2_num r of None \<Rightarrow> False | Some n \<Rightarrow> 10 \<le> n \<and> n \<le> 33) wm"

definition wavg :: "wm_row list \<Rightarrow> cell" where
  "wavg g =
     (let x = map replaceability_ind g;
          wgt = map w_ind g
      in if pd_sum wgt = 0 then pd_mean x
         else Some (pd_sum (map2 pd_mul x wgt) / pd_sum wgt))"

text \<open>A row of the merged frame with both cells present, in the bucket \<open>k\<close>.\<close>

definition detailed :: "real \<Rightarrow> string \<times> real \<times> real \<Rightarrow> wm_row" where
  "detailed k p =
     \<lparr>ind1990 = fst p, replaceability_ind = Some (fst (snd p)),
      w_ind = Some (snd (snd p)), nace2_num = Some k\<rparr>"

record nace2_weight =
  nace2 :: real
  auto_weight_nace2 :: cell
  n_sources :: nat
  w_ind_sum :: real

definition weights_nace2 :: "wm_row list \<Rightarrow> nace2_weight list" where
  "weights_nace2 wm =
     (let wm' = manufacturing_only wm
      in map (\<lambda>k. let g = filter (\<lambda>r. nace2_num r = Some k) wm'
                   in \<lparr>nace2 = k,
                       auto_weight_nace2 = wavg g,
                       n_sources = length (remdups (map ind1990 g)),
                       w_ind_sum = pd_sum (map w_ind g)\<rparr>)
             (sort (remdups (dropna_vals (map nace2_num wm')))))"

section \<open>Shift-share exposure (1-share-shift-weights.py)\<close>

text \<open>
  \<open>ifr_long\<close> is the country-by-year frame of robot stocks after the melt, with missing
  stocks dropped; \<open>weights\<close> is the frame of industry weights with missing rows dropped.
  The panel is their cross merge, with the exposure column, sorted by country, industry
  and year. The two columns of the log variant, added between the product and the sort,
  take no part in the exposure and are left out.
\<close>

record ifr_long_row =
  country :: string
  year :: int
  robot_stock :: real

record weight_row =
  industry_id :: string
  auto_weight :: real

record exposure_row = ifr_long_row +
  x_industry_id :: string
  x_auto_weight :: real
  robot_exposure :: real

definition cross_merge :: "'a list \<Rightarrow> 'b list \<Rightarrow> ('a \<times> 'b) list" where
  "cross_merge L R = concat (map (\<lambda>l. map (Pair l) R) L)"

definition exposure :: "ifr_long_row \<times> weight_row \<Rightarrow> exposure_row" where
  "exposure p =
     ifr_long_row.extend (fst p)
       (exposure_row.fields (industry_id (snd p)) (auto_weight (snd p))
          (robot_stock (fst p) * auto_weight (snd p)))"

definition panel_cross :: "ifr_long_row list \<Rightarrow> weight_row list \<Rightarrow> exposure_row list" where
  "panel_cross ifr_long weights = map exposure (cross_merge ifr_long weights)"

definition panel :: "ifr_long_row list \<Rightarrow> weight_row list \<Rightarrow> exposure_row list" where
  "panel ifr_long weights =
     sort_key (\<lambda>r. (country r, x_industry_id r, ifr_long_row.year r)) (panel_cross ifr_long weights)"

section \<open>Lookup tables (2-cleaning-data.py, 1-datacheck.py)\<close>

text \<open>
  The module-level sets and dictionaries. A dictionary is its list of items, read with
  \<open>map_of\<close>; no key occurs twice.
\<close>

definition EU_ISO2 :: "string list" where
  "EU_ISO2 =
     [''AT'', ''BE'', ''BG'', ''CY'', ''CZ'', ''DE'', ''DK'', ''EE'', ''EL'', ''ES'',
      ''FI'', ''FR'', ''GR'', ''HR'', ''HU'', ''IE'', ''IT'', ''LT'', ''LU'', ''LV'',
      ''MT'', ''NL'', ''PL'', ''PT'', ''RO'', ''SE'', ''SI'', ''SK'', ''UK'']"

definition IFR_TO_NACE :: "(string \<times> string) list" where
  "IFR_TO_NACE =
     [(''10-12'', ''C10-C12''), (''13-15'', ''C13-C15''), (''16'', ''C16-C18''),
      (''17-18'', ''C16-C18''), (''19'', ''C19''), (''19-22'', ''C20-C21''),
      (''20'', ''C20-C21''), (''20-21'', ''C20-C21''), (''20-23'', ''C20-C21''),
      (''21'', ''C21''), (''22'', ''C22-C23''), (''23'', ''C22-C23''),
      (''24'', ''C24-C25''), (''24-25'', ''C24-C25''), (''25'', ''C24-C25''),
      (''26'', ''C26-C27''), (''26-27'', ''C26-C27''), (''27'', ''C26-C27''),
      (''28'', ''C28''), (''29'', ''C29-C30''), (''29-30'', ''C29-C30''),
      (''30'', ''C29-C30''), (''D'', ''C''), (''D_other'', ''C31-C33'')]"

definition EUROSTAT_GEO_TO_ISO2 :: "(string \<times> string) list" where
  "EUROSTAT_GEO_TO_ISO2 =
     [(''Austria'', ''AT''), (''Belgium'', ''BE''), (''Bulgaria'', ''BG''),
      (''Croatia'', ''HR''), (''Cyprus'', ''CY''), (''Czechia'', ''CZ''),
      (''Czech Republic'', ''CZ''), (''Denmark'', ''DK''), (''Estonia'', ''EE''),
      (''Finland'', ''FI''), (''France'', ''FR''), (''Germany'', ''DE''),
      (''Greece'', ''EL''), (''Hungary'', ''HU''), (''Ireland'', ''IE''),
      (''Italy'', ''IT''), (''Latvia'', ''LV''), (''Lithuania'', ''LT''),
      (''Luxembourg'', ''LU''), (''Malta'', ''MT''), (''Netherlands'', ''NL''),
      (''Poland'', ''PL''), (''Portugal'', ''PT''), (''Romania'', ''RO''),
      (''Slovakia'', ''SK''), (''Slovenia'', ''SI''), (''Spain'', ''ES''),
      (''Sweden'', ''SE''), (''United Kingdom'', ''UK'')]"

definition ISO3_TO_ISO2 :: "(string \<times> string) list" where
  "ISO3_TO_ISO2 =
     [(''AUT'', ''AT''), (''BEL'', ''BE''), (''BGR'', ''BG''), (''HRV'', ''HR''),
      (''CYP'', ''CY''), (''CZE'', ''CZ''), (''DNK'', ''DK''), (''EST'', ''EE''),
      (''FIN'', ''FI''), (''FRA'', ''FR''), (''DEU'', ''DE''), (''GRC'', ''EL''),
      (''HUN'', ''HU''), (''IRL'', ''IE''), (''ITA'', ''IT''), (''LVA'', ''LV''),
      (''LTU'', ''LT''), (''LUX'', ''LU''), (''MLT'', ''MT''), (''NLD'', ''NL''),
      (''POL'', ''PL''), (''PRT'', ''PT''), (''ROU'', ''RO''), (''SVK'', ''SK''),
      (''SVN'', ''SI''), (''ESP'', ''ES''), (''SWE'', ''SE''), (''GBR'', ''UK'')]"

text \<open>The data check's table from the two-letter to the three-letter code.\<close>

definition ISO2_TO_ISO3 :: "(string \<times> string) list" where
  "ISO2_TO_ISO3 =
     [(''AT'', ''AUT''), (''BE'', ''BEL''), (''BG'', ''BGR''), (''CY'', ''CYP''),
      (''CZ'', ''CZE''), (''DE'', ''DEU''), (''DK'', ''DNK''), (''EE'', ''EST''),
      (''EL'', ''GRC''), (''ES'', ''ESP''), (''FI'', ''FIN''), (''FR'', ''FRA''),
      (''GR'', ''GRC''), (''HR'', ''HRV''), (''HU'', ''HUN''), (''IE'', ''IRL''),
      (''IT'', ''ITA''), (''LT'', ''LTU''), (''LU'', ''LUX''), (''LV'', ''LVA''),
      (''MT'', ''MLT''), (''NL'', ''NLD''), (''PL'', ''POL''), (''PT'', ''PRT''),
      (''RO'', ''ROU''), (''SE'', ''SWE''), (''SI'', ''SVN''), (''SK'', ''SVK''),
      (''UK'', ''GBR'')]"

section \<open>Country codes of each source (2-cleaning-data.py)\<close>

text \<open>
  The cleaning script has no single normaliser: each source reaches the column
  \<open>country_code\<close> its own way. A token that yields \<open>None\<close> loses its row.
  \<^item> The robot source carries two-letter codes; a row is kept when its code is in
    \<open>EU_ISO2\<close> and the code is left as it is.
  \<^item> The growth accounts carry two-letter codes in \<open>geo_code\<close>; a row is kept when the
    code is in \<open>EU_ISO2\<close> or is \<open>EL\<close>, and \<open>country_code\<close> is a copy of \<open>geo_code\<close>.
  \<^item> The institutions source carries three-letter codes, mapped through
    \<open>ISO3_TO_ISO2\<close>, then filtered by \<open>EU_ISO2\<close>.
  \<^item> The Eurostat sources carry country names, mapped through
    \<open>EUROSTAT_GEO_TO_ISO2\<close>, then filtered by \<open>EU_ISO2\<close>.
\<close>

definition ifr_country :: "string \<Rightarrow> string option" where
  "ifr_country c = (if c \<in> set EU_ISO2 then Some c else None)"

definition klems_country :: "string \<Rightarrow> string option" where
  "klems_country c = (if c \<in> set EU_ISO2 \<or> c = ''EL'' then Some c else None)"

definition ictwss_country :: "string \<Rightarrow> string option" where
  "ictwss_country t =
     (case map_of ISO3_TO_ISO2 t of
        None \<Rightarrow> None
      | Some c \<Rightarrow> if c \<in> set EU_ISO2 then Some c else None)"

definition eurostat_country :: "string \<Rightarrow> string option" where
  "eurostat_country g =
     (case map_of EUROSTAT_GEO_TO_ISO2 g of
        None \<Rightarrow> None
      | Some c \<Rightarrow> if c \<in> set EU_ISO2 then Some c else None)"

section \<open>Loading the sources (2-cleaning-data.py, 1-datacheck.py)\<close>

text \<open>
  The data directory is a partial map from file names to file contents. The pandas
  readers are parameters: a reader turns the contents into a frame or raises.
\<close>

datatype error = FileNotFoundError string | ParserError string | KeyError string

type_synonym files = "string \<rightharpoonup> string"

text \<open>\<open>load_csv\<close> of the cleaning script: raises when the file is not there, and lets the
  reader's exception through.\<close>

definition load_csv :: "files \<Rightarrow> (string \<Rightarrow> error + 'a) \<Rightarrow> string \<Rightarrow> error + 'a" where
  "load_csv fs read_csv path =
     (case fs path of
        None \<Rightarrow> Inl (FileNotFoundError path)
      | Some contents \<Rightarrow> read_csv contents)"

text \<open>\<open>load_safe\<close> of the data check: \<open>None\<close> when the file is not there or the reader
  raises.\<close>

datatype reader = Csv | Excel

definition load_safe ::
    "files \<Rightarrow> (string \<Rightarrow> error + 'a) \<Rightarrow> (string \<Rightarrow> error + 'a) \<Rightarrow> string \<Rightarrow> reader \<Rightarrow> 'a option" where
  "load_safe fs read_csv read_excel path rd =
     (case fs path of
        None \<Rightarrow> None
      | Some contents \<Rightarrow>
          (case (if rd = Csv then read_csv contents else read_excel contents) of
             Inl e \<Rightarrow> None
           | Inr df \<Rightarrow> Some df))"

section \<open>The robot source and its lag (2-cleaning-data.py, step 1)\<close>

record ifr_src =
  country_code :: string
  industry_code :: string
  year :: int
  robot_wrkr_stock_95 :: fval

record ifr_lag = ifr_src +
  ln_robots :: fval
  ln_robots_lag1 :: fval

text \<open>\<^verbatim>\<open>np.log\<close>: the logarithm of a positive number, minus infinity at zero, plus
  infinity at plus infinity, \<^verbatim>\<open>NaN\<close> below zero and on a missing cell.\<close>

definition np_log :: "fval \<Rightarrow> fval" where
  "np_log x =
     (case x of
        NaN \<Rightarrow> NaN
      | NegInf \<Rightarrow> NaN
      | PosInf \<Rightarrow> PosInf
      | Fin v \<Rightarrow> if 0 < v then Fin (ln v) else if v = 0 then NegInf else NaN)"

text \<open>\<^verbatim>\<open>Series.replace(0, np.nan)\<close>.\<close>

definition replace0 :: "fval \<Rightarrow> fval" where
  "replace0 x = (if x = Fin 0 then NaN else x)"

text \<open>\<^verbatim>\<open>Series.clip(lower=lo)\<close>: a missing cell stays missing, minus infinity is
  clipped up, plus infinity stays.\<close>

definition clip_lower :: "real \<Rightarrow> fval \<Rightarrow> fval" where
  "clip_lower lo x =
     (case x of
        NaN \<Rightarrow> NaN
      | NegInf \<Rightarrow> Fin lo
      | PosInf \<Rightarrow> PosInf
      | Fin v \<Rightarrow> Fin (max lo v))"

text \<open>The three filters on the robot source: EU country, mapped industry, years 1993 to
  2019.\<close>

definition ifr_filtered :: "ifr_src list \<Rightarrow> ifr_src list" where
  "ifr_filtered ifr =
     filter (\<lambda>r. 1993 \<le> year r \<and> year r \<le> 2019)
       (filter (\<lambda>r. industry_code r \<in> set (map fst IFR_TO_NACE))
          (filter (\<lambda>r. ifr_country (country_code r) \<noteq> None) ifr))"

definition ln_robots_col :: "ifr_src list \<Rightarrow> fval list" where
  "ln_robots_col F = map (\<lambda>r. np_log (replace0 (robot_wrkr_stock_95 r))) F"

definition entity_of :: "'a ifr_src_scheme \<Rightarrow> string \<times> string" where
  "entity_of r = (country_code r, industry_code r)"

text \<open>
  \<^verbatim>\<open>groupby(keys)[col].shift(1)\<close>: the shift is by position inside the group. The row at
  position \<open>j\<close> gets the column's value at the nearest earlier position of the frame
  whose row has the same key, and \<^verbatim>\<open>NaN\<close> when there is none. The frame is taken in
  the order it has; the script does not sort it.
\<close>

definition prev_in_group :: "('r \<Rightarrow> 'k) \<Rightarrow> 'r list \<Rightarrow> nat \<Rightarrow> nat option" where
  "prev_in_group key F j = find (\<lambda>i. key (F ! i) = key (F ! j)) (rev [0..<j])"

definition group_shift1 :: "('r \<Rightarrow> 'k) \<Rightarrow> 'r list \<Rightarrow> fval list \<Rightarrow> fval list" where
  "group_shift1 key F col =
     map (\<lambda>j. case prev_in_group key F j of None \<Rightarrow> NaN | Some i \<Rightarrow> col ! i) [0..<length F]"

text \<open>The frame with the two new columns, before the rows of 1993 and 1994 go.\<close>

definition ifr_with_lag :: "ifr_src list \<Rightarrow> ifr_lag list" where
  "ifr_with_lag ifr =
     (let F = ifr_filtered ifr;
          ln = ln_robots_col F;
          lag = group_shift1 entity_of F ln
      in map (\<lambda>j. ifr_src.extend (F ! j) (ifr_lag.fields (ln ! j) (lag ! j))) [0..<length F])"

definition ifr_step1 :: "ifr_src list \<Rightarrow> ifr_lag list" where
  "ifr_step1 ifr = filter (\<lambda>r. 1995 \<le> year r) (ifr_with_lag ifr)"


section \<open>The growth accounts (2-cleaning-data.py, step 2)\<close>

text \<open>
  The growth accounts come in long form, one row per country, industry, year and
  variable. \<open>k_year\<close> and \<open>k_value\<close> are the cells after \<^verbatim>\<open>pd.to_numeric\<close>.
\<close>

record klems_row =
  geo_code :: string
  k_nace_r2_code :: string
  k_year :: "int option"
  var :: string
  k_value :: fval

definition vars_needed :: "string list" where
  "vars_needed = [''LAB_QI'', ''VA_PYP'', ''CAP_QI'', ''CAPICT_QI'', ''CAPNICT_QI'']"

definition klems_filtered :: "klems_row list \<Rightarrow> klems_row list" where
  "klems_filtered klems =
     filter (\<lambda>r. var r \<in> set vars_needed)
       (filter (\<lambda>r. klems_country (geo_code r) \<noteq> None) klems)"

text \<open>\<^verbatim>\<open>first\<close> as an aggregation: the first cell of the group that is not missing.\<close>

definition first_notna :: "fval list \<Rightarrow> fval" where
  "first_notna xs = (case filter (\<lambda>x. x \<noteq> NaN) xs of [] \<Rightarrow> NaN | y # ys \<Rightarrow> y)"

type_synonym klems_key = "string \<times> string \<times> int"

definition klems_key_of :: "klems_row \<Rightarrow> klems_key option" where
  "klems_key_of r =
     (case k_year r of None \<Rightarrow> None | Some y \<Rightarrow> Some (geo_code r, k_nace_r2_code r, y))"

record klems_wide_row =
  w_key :: klems_key
  w_LAB_QI :: fval
  w_VA_PYP :: fval
  w_CAP_QI :: fval
  w_CAPICT_QI :: fval
  w_CAPNICT_QI :: fval

definition pivot_cell :: "klems_row list \<Rightarrow> klems_key \<Rightarrow> string \<Rightarrow> fval" where
  "pivot_cell K k v =
     first_notna (map k_value (filter (\<lambda>r. klems_key_of r = Some k \<and> var r = v) K))"

text \<open>
  \<^verbatim>\<open>pivot_table(index, columns="var", values="value", aggfunc="first")\<close>: one row per
  key that has a value for at least one variable, keys in sorted order, a missing cell
  where the key has no value for the variable. Rows without a year have no key. The
  pivot has a column for a variable only when some key has a value for it; here a
  variable without values gives missing cells, and \<open>has_column\<close> says whether the
  column is there.
\<close>

definition klems_wide :: "klems_row list \<Rightarrow> klems_wide_row list" where
  "klems_wide klems =
     (let K = klems_filtered klems
      in filter (\<lambda>w. w_LAB_QI w \<noteq> NaN \<or> w_VA_PYP w \<noteq> NaN \<or> w_CAP_QI w \<noteq> NaN
                      \<or> w_CAPICT_QI w \<noteq> NaN \<or> w_CAPNICT_QI w \<noteq> NaN)
           (map (\<lambda>k. \<lparr>w_key = k,
                       w_LAB_QI = pivot_cell K k ''LAB_QI'',
                       w_VA_PYP = pivot_cell K k ''VA_PYP'',
                       w_CAP_QI = pivot_cell K k ''CAP_QI'',
                       w_CAPICT_QI = pivot_cell K k ''CAPICT_QI'',
                       w_CAPNICT_QI = pivot_cell K k ''CAPNICT_QI''\<rparr>)
              (sort (remdups (List.map_filter klems_key_of K)))))"

definition has_column :: "(klems_wide_row \<Rightarrow> fval) \<Rightarrow> klems_wide_row list \<Rightarrow> bool" where
  "has_column col kw = list_ex (\<lambda>w. col w \<noteq> NaN) kw"

section \<open>The institutional baseline (2-cleaning-data.py, step 3)\<close>

record ictwss_row =
  iso3 :: string
  i_year :: int
  i_AdjCov :: cell
  i_Coord :: cell

text \<open>The rows of EU countries in the baseline window 1990 to 1995, each with its
  two-letter code.\<close>

definition base_years :: "ictwss_row list \<Rightarrow> (string \<times> ictwss_row) list" where
  "base_years ictwss =
     filter (\<lambda>p. 1990 \<le> i_year (snd p) \<and> i_year (snd p) \<le> 1995)
       (List.map_filter (\<lambda>r. map_option (\<lambda>c. (c, r)) (ictwss_country (iso3 r))) ictwss)"

definition safe_mean :: "cell list \<Rightarrow> cell" where
  "safe_mean s = (if list_ex (\<lambda>x. x \<noteq> None) s then pd_mean s else None)"

record baseline_row =
  b_country_code :: string
  b_AdjCov :: cell
  b_Coord :: cell

definition ictwss_baseline :: "ictwss_row list \<Rightarrow> baseline_row list" where
  "ictwss_baseline ictwss =
     (let B = base_years ictwss
      in map (\<lambda>c. let g = map snd (filter (\<lambda>p. fst p = c) B)
                   in \<lparr>b_country_code = c,
                       b_AdjCov = safe_mean (map i_AdjCov g),
                       b_Coord = safe_mean (map i_Coord g)\<rparr>)
           (sort (remdups (map fst B))))"

section \<open>The Eurostat aggregates (2-cleaning-data.py, steps 4 and 5)\<close>

text \<open>GDP and unemployment have the same shape and go through the same steps; \<open>TIME_PERIOD\<close>
  and \<open>OBS_VALUE\<close> are the cells after \<^verbatim>\<open>pd.to_numeric\<close>.\<close>

record eurostat_row =
  geo :: string
  TIME_PERIOD :: "int option"
  OBS_VALUE :: fval

type_synonym country_year = "string \<times> int"

definition eurostat_keyed :: "eurostat_row list \<Rightarrow> (country_year \<times> fval) list" where
  "eurostat_keyed E =
     List.map_filter
       (\<lambda>r. case eurostat_country (geo r) of
               None \<Rightarrow> None
             | Some c \<Rightarrow> (case TIME_PERIOD r of None \<Rightarrow> None | Some y \<Rightarrow> Some ((c, y), OBS_VALUE r)))
       E"

text \<open>\<^verbatim>\<open>groupby(["country_code", "year"])[col].first()\<close>: one row per key, keys sorted;
  rows without a year are in no group.\<close>

definition country_year_first :: "eurostat_row list \<Rightarrow> (country_year \<times> fval) list" where
  "country_year_first E =
     (let rows = eurostat_keyed E
      in map (\<lambda>k. (k, first_notna (map snd (filter (\<lambda>p. fst p = k) rows))))
           (sort (remdups (map fst rows))))"

section \<open>Merges\<close>

text \<open>
  \<^verbatim>\<open>DataFrame.merge\<close>. The result follows the order of the left frame; a left row with
  several matches is repeated, once per match in the order of the right frame. With
  \<^verbatim>\<open>how="inner"\<close> a left row without a match is dropped; with \<^verbatim>\<open>how="left"\<close> it is
  kept, and the right frame's columns are missing in it.
\<close>

definition merge_inner ::
    "('l \<Rightarrow> 'k) \<Rightarrow> ('r \<Rightarrow> 'k) \<Rightarrow> ('l \<Rightarrow> 'r \<Rightarrow> 'o) \<Rightarrow> 'l list \<Rightarrow> 'r list \<Rightarrow> 'o list" where
  "merge_inner kl kr comb L R =
     concat (map (\<lambda>l. map (comb l) (filter (\<lambda>r. kr r = kl l) R)) L)"

definition merge_left ::
    "('l \<Rightarrow> 'k) \<Rightarrow> ('r \<Rightarrow> 'k) \<Rightarrow> ('l \<Rightarrow> 'r option \<Rightarrow> 'o) \<Rightarrow> 'l list \<Rightarrow> 'r list \<Rightarrow> 'o list" where
  "merge_left kl kr comb L R =
     concat (map (\<lambda>l. case filter (\<lambda>r. kr r = kl l) R of
                         [] \<Rightarrow> [comb l None]
                       | m # ms \<Rightarrow> map (\<lambda>r. comb l (Some r)) (m # ms)) L)"

section \<open>The panel (2-cleaning-data.py, merges and regression variables)\<close>

record ifr_nace = ifr_lag +
  nace_r2_code :: string

record df_klems = ifr_nace +
  LAB_QI :: fval
  VA_PYP :: fval
  CAP_QI :: fval
  CAPICT_QI :: fval
  CAPNICT_QI :: fval

record df_gdp = df_klems +
  gdp :: fval

record df_une = df_gdp +
  unemployment :: fval

record df_inst = df_une +
  AdjCov :: cell
  Coord :: cell

record df_vars = df_inst +
  ln_hours :: fval
  ln_va :: fval
  ln_cap :: fval
  ln_gdp :: fval
  adjcov :: cell
  coord :: cell
  adjcov_centered :: cell
  high_coord :: cell
  high_robot_industry :: int

record df_out = df_vars +
  entity :: string
  year_int :: int

text \<open>The industry crosswalk; a row whose industry has no entry is dropped.\<close>

definition add_nace :: "ifr_lag list \<Rightarrow> ifr_nace list" where
  "add_nace ifr =
     List.map_filter
       (\<lambda>r. map_option (\<lambda>n. ifr_lag.extend r (ifr_nace.fields n))
               (map_of IFR_TO_NACE (industry_code r)))
       ifr"

definition merge_klems :: "ifr_nace list \<Rightarrow> klems_wide_row list \<Rightarrow> df_klems list" where
  "merge_klems ifr kw =
     merge_inner (\<lambda>r. (country_code r, nace_r2_code r, year r)) w_key
       (\<lambda>r w. ifr_nace.extend r
                 (df_klems.fields (w_LAB_QI w) (w_VA_PYP w) (w_CAP_QI w)
                    (w_CAPICT_QI w) (w_CAPNICT_QI w)))
       ifr kw"

definition merge_gdp :: "df_klems list \<Rightarrow> (country_year \<times> fval) list \<Rightarrow> df_gdp list" where
  "merge_gdp df g =
     merge_left (\<lambda>r. (country_code r, year r)) fst
       (\<lambda>r m. df_klems.extend r
                 (df_gdp.fields (case m of None \<Rightarrow> NaN | Some p \<Rightarrow> snd p)))
       df g"

definition merge_une :: "df_gdp list \<Rightarrow> (country_year \<times> fval) list \<Rightarrow> df_une list" where
  "merge_une df u =
     merge_left (\<lambda>r. (country_code r, year r)) fst
       (\<lambda>r m. df_gdp.extend r
                 (df_une.fields (case m of None \<Rightarrow> NaN | Some p \<Rightarrow> snd p)))
       df u"

definition merge_inst :: "df_une list \<Rightarrow> baseline_row list \<Rightarrow> df_inst list" where
  "merge_inst df b =
     merge_left country_code b_country_code
       (\<lambda>r m. df_une.extend r
                 (df_inst.fields (case m of None \<Rightarrow> None | Some x \<Rightarrow> b_AdjCov x)
                    (case m of None \<Rightarrow> None | Some x \<Rightarrow> b_Coord x)))
       df b"

definition high_robot_nace :: "string list" where
  "high_robot_nace = [''C26-C27'', ''C28'', ''C29-C30'']"

text \<open>The regression variables. The mean of \<open>adjcov\<close> is taken once, over all rows of the
  merged frame, before any row is dropped.\<close>

definition build_vars :: "df_inst list \<Rightarrow> df_vars list" where
  "build_vars df =
     (let adj_mean = pd_mean (map AdjCov df)
      in map (\<lambda>r. df_inst.extend r
                     (df_vars.fields
                        (np_log (clip_lower (1 / 10) (LAB_QI r)))
                        (np_log (clip_lower (1 / 10) (VA_PYP r)))
                        (np_log (clip_lower (1 / 10) (CAP_QI r)))
                        (np_log (clip_lower (1 / 10) (gdp r)))
                        (AdjCov r)
                        (Coord r)
                        (pd_sub (AdjCov r) adj_mean)
                        (case Coord r of None \<Rightarrow> None | Some c \<Rightarrow> Some (if 4 \<le> c then 1 else 0))
                        (if nace_r2_code r \<in> set high_robot_nace then 1 else 0)))
           df)"

text \<open>\<^verbatim>\<open>dropna(subset=required)\<close>: the infinities are not missing.\<close>

definition dropna_required :: "df_vars list \<Rightarrow> df_vars list" where
  "dropna_required df =
     filter (\<lambda>r. ln_hours r \<noteq> NaN \<and> ln_robots_lag1 r \<noteq> NaN \<and> ln_va r \<noteq> NaN \<and> ln_cap r \<noteq> NaN) df"

definition add_index :: "df_vars list \<Rightarrow> df_out list" where
  "add_index df =
     map (\<lambda>r. df_vars.extend r
                 (df_out.fields (country_code r @ ''_'' @ industry_code r) (year r)))
       df"

text \<open>The frame after the four merges; the frame with the regression variables; the
  rows that are written. The final choice of columns drops columns only.\<close>

definition merged_panel ::
    "ifr_src list \<Rightarrow> klems_row list \<Rightarrow> ictwss_row list \<Rightarrow> eurostat_row list
       \<Rightarrow> eurostat_row list \<Rightarrow> df_inst list" where
  "merged_panel ifr klems ictwss gdp_src une_src =
     merge_inst
       (merge_une
          (merge_gdp (merge_klems (add_nace (ifr_step1 ifr)) (klems_wide klems))
             (country_year_first gdp_src))
          (country_year_first une_src))
       (ictwss_baseline ictwss)"

definition cleaned_data ::
    "ifr_src list \<Rightarrow> klems_row list \<Rightarrow> ictwss_row list \<Rightarrow> eurostat_row list
       \<Rightarrow> eurostat_row list \<Rightarrow> df_out list" where
  "cleaned_data ifr klems ictwss gdp_src une_src =
     add_index (dropna_required (build_vars (merged_panel ifr klems ictwss gdp_src une_src)))"

text \<open>
  \<open>main\<close> with its five loads, in the script's order. The first exception ends it.
  After the loads the script reads the pivot's columns \<open>LAB_QI\<close>, \<open>VA_PYP\<close> and
  \<open>CAP_QI\<close> by name, in that order, and raises \<open>KeyError\<close> at the first one that
  the pivot does not have. \<open>cleaned_data\<close> is the frame that is written when nothing is
  raised.
\<close>

record readers =
  read_ifr :: "string \<Rightarrow> error + ifr_src list"
  read_klems :: "string \<Rightarrow> error + klems_row list"
  read_ictwss :: "string \<Rightarrow> error + ictwss_row list"
  read_eurostat :: "string \<Rightarrow> error + eurostat_row list"

definition main :: "files \<Rightarrow> readers \<Rightarrow> error + df_out list" where
  "main fs rd =
     (case load_csv fs (read_ifr rd) ''IFR_karol.csv'' of
        Inl e \<Rightarrow> Inl e
      | Inr ifr \<Rightarrow>
     (case load_csv fs (read_klems rd) ''klems_growth_accounts_basic.csv'' of
        Inl e \<Rightarrow> Inl e
      | Inr klems \<Rightarrow>
     (case load_csv fs (read_ictwss rd) ''ictwss_institutions.csv'' of
        Inl e \<Rightarrow> Inl e
      | Inr ictwss \<Rightarrow>
     (case load_csv fs (read_eurostat rd)
             (if fs ''eurostata_gdp_nama_10_gdp.csv'' = None
              then ''eurostat_gdp_nama_10_gdp.csv'' else ''eurostata_gdp_nama_10_gdp.csv'') of
        Inl e \<Rightarrow> Inl e
      | Inr gdp_src \<Rightarrow>
     (case load_csv fs (read_eurostat rd) ''eurostat_employment_une_rt_a.csv'' of
        Inl e \<Rightarrow> Inl e
      | Inr une_src \<Rightarrow>
          if \<not> has_column w_LAB_QI (klems_wide klems) then Inl (KeyError ''LAB_QI'')
          else if \<not> has_column w_VA_PYP (klems_wide klems) then Inl (KeyError ''VA_PYP'')
          else if \<not> has_column w_CAP_QI (klems_wide klems) then Inl (KeyError ''CAP_QI'')
          else Inr (cleaned_data ifr klems ictwss gdp_src une_src))))))"

section \<open>Industry-by-industry coverage moderation (7-equation5-industry-heterogeneity-coverage.py)\<close>



definition col_isna :: "string \<Rightarrow> df_out \<Rightarrow> bool" where
  "col_isna c r =
     (if c = ''ln_hours'' then ln_hours r = NaN
      else if c = ''ln_robots_lag1'' then ln_robots_lag1 r = NaN
      else if c = ''ln_va'' then ln_va r = NaN
      else if c = ''ln_cap'' then ln_cap r = NaN
      else if c = ''ln_gdp'' then ln_gdp r = NaN
      else if c = ''unemployment'' then unemployment r = NaN
      else if c = ''adjcov'' then adjcov r = None
      else False)"

text \<open>\<open>get_controls\<close> of the shared utilities.\<close>

definition get_controls :: "df_out list \<Rightarrow> string list" where
  "get_controls df =
     [''ln_va'', ''ln_cap'']
     @ (if list_ex (\<lambda>r. ln_gdp r \<noteq> NaN) df then [''ln_gdp''] else [])
     @ (if list_ex (\<lambda>r. unemployment r \<noteq> NaN) df then [''unemployment''] else [])"

text \<open>\<^verbatim>\<open>dropna(subset=cols)\<close> and \<^verbatim>\<open>drop_duplicates(subset=key)\<close>, which keeps the first
  row of each key.\<close>

definition dropna_subset :: "string list \<Rightarrow> df_out list \<Rightarrow> df_out list" where
  "dropna_subset cols df = filter (\<lambda>r. \<forall>c \<in> set cols. \<not> col_isna c r) df"

fun drop_duplicates_seen :: "'k list \<Rightarrow> ('a \<Rightarrow> 'k) \<Rightarrow> 'a list \<Rightarrow> 'a list" where
  "drop_duplicates_seen seen key [] = []"
| "drop_duplicates_seen seen key (x # xs) =
     (if key x \<in> set seen then drop_duplicates_seen seen key xs
      else x # drop_duplicates_seen (key x # seen) key xs)"

definition drop_duplicates :: "('a \<Rightarrow> 'k) \<Rightarrow> 'a list \<Rightarrow> 'a list" where
  "drop_duplicates key xs = drop_duplicates_seen [] key xs"

definition panel_index :: "df_out \<Rightarrow> string \<times> int" where
  "panel_index r = (entity r, year_int r)"

text \<open>\<open>prepare_panel\<close> of the shared utilities: drop rows with a missing required column,
  drop duplicates of the index, sort by the index.\<close>

definition prepare_panel :: "df_out list \<Rightarrow> string list \<Rightarrow> df_out list" where
  "prepare_panel df require =
     sort_key panel_index (drop_duplicates panel_index (dropna_subset require df))"

definition req :: "string list" where
  "req = [''ln_hours'', ''ln_robots_lag1'', ''ln_va'', ''ln_cap'', ''adjcov'', ''nace_r2_code'']"

text \<open>The sample of \<open>step_model\<close> before the centred column is looked at.\<close>

definition model_rows :: "df_out list \<Rightarrow> df_out list" where
  "model_rows df_raw =
     drop_duplicates panel_index
       (fold (\<lambda>c df. dropna_subset [c] df) (get_controls df_raw) (prepare_panel df_raw req))"

text \<open>The sample the industries are taken from. When the file has no centred column,
  the column is computed from the sample at hand.\<close>

definition model_sample :: "bool \<Rightarrow> df_out list \<Rightarrow> df_out list" where
  "model_sample has_centered df_raw =
     (let df = model_rows df_raw;
          df' = (if has_centered then df
                 else map (\<lambda>r. r\<lparr>adjcov_centered := pd_sub (adjcov r) (pd_mean (map adjcov df))\<rparr>) df)
      in filter (\<lambda>r. adjcov_centered r \<noteq> None) df')"











section \<open>Fixtures\<close>

text \<open>Two buckets of the crosswalk; one entry of the first has no value.\<close>

definition missing_wm :: "wm_row list" where
  "missing_wm =
     [\<lparr>ind1990 = ''a'', replaceability_ind = Some 10, w_ind = Some 1, nace2_num = Some 20\<rparr>,
      \<lparr>ind1990 = ''c'', replaceability_ind = Some 4, w_ind = Some 1, nace2_num = Some 25\<rparr>,
      \<lparr>ind1990 = ''b'', replaceability_ind = None, w_ind = Some 3, nace2_num = Some 20\<rparr>,
      \<lparr>ind1990 = ''d'', replaceability_ind = Some 8, w_ind = Some 3, nace2_num = Some 25\<rparr>]"

text \<open>One entity observed in 1995 and 1997, with no row for 1996.\<close>

definition gap_ifr :: "ifr_src list" where
  "gap_ifr =
     [\<lparr>country_code = ''DE'', industry_code = ''28'', year = 1995, robot_wrkr_stock_95 = Fin 2\<rparr>,
      \<lparr>country_code = ''DE'', industry_code = ''28'', year = 1997, robot_wrkr_stock_95 = Fin 3\<rparr>]"

text \<open>One entity observed in 1995 and 1996, the later year first in the file.\<close>

definition unsorted_ifr :: "ifr_src list" where
  "unsorted_ifr =
     [\<lparr>country_code = ''DE'', industry_code = ''28'', year = 1996, robot_wrkr_stock_95 = Fin 3\<rparr>,
      \<lparr>country_code = ''DE'', industry_code = ''28'', year = 1995, robot_wrkr_stock_95 = Fin 2\<rparr>]"

text \<open>One entity observed in 1995, 1996 and 1998, and another one in 1996.\<close>

definition lag_ifr :: "ifr_src list" where
  "lag_ifr =
     [\<lparr>country_code = ''DE'', industry_code = ''28'', year = 1995, robot_wrkr_stock_95 = Fin 2\<rparr>,
      \<lparr>country_code = ''DE'', industry_code = ''28'', year = 1996, robot_wrkr_stock_95 = Fin 3\<rparr>,
      \<lparr>country_code = ''FR'', industry_code = ''28'', year = 1996, robot_wrkr_stock_95 = Fin 7\<rparr>,
      \<lparr>country_code = ''DE'', industry_code = ''28'', year = 1998, robot_wrkr_stock_95 = Fin 5\<rparr>]"

text \<open>One entity with no robots in 1994.\<close>

definition zero_ifr :: "ifr_src list" where
  "zero_ifr =
     [\<lparr>country_code = ''DE'', industry_code = ''28'', year = 1994, robot_wrkr_stock_95 = Fin 0\<rparr>,
      \<lparr>country_code = ''DE'', industry_code = ''28'', year = 1995, robot_wrkr_stock_95 = Fin 2\<rparr>,
      \<lparr>country_code = ''DE'', industry_code = ''28'', year = 1996, robot_wrkr_stock_95 = Fin 3\<rparr>]"

text \<open>A row of the frame after the merge with the growth accounts.\<close>

definition fx_klems_row :: "string \<Rightarrow> string \<Rightarrow> string \<Rightarrow> int \<Rightarrow> fval \<Rightarrow> df_klems" where
  "fx_klems_row c i n y lab =
     \<lparr>country_code = c, industry_code = i, year = y, robot_wrkr_stock_95 = Fin 2,
      ln_robots = Fin (ln 2), ln_robots_lag1 = Fin (ln 2), nace_r2_code = n,
      LAB_QI = lab, VA_PYP = Fin 100, CAP_QI = Fin 100, CAPICT_QI = NaN, CAPNICT_QI = NaN\<rparr>"

text \<open>A merged frame of one row that has no GDP, with the given labour input.\<close>

definition fx_inst :: "fval \<Rightarrow> df_inst list" where
  "fx_inst lab = merge_inst (merge_une (merge_gdp [fx_klems_row ''DE'' ''28'' ''C28'' 1995 lab] []) []) []"

text \<open>Twelve candidate rows, two countries by two industries by three years, and an
  institutions source that knows one of the two countries.\<close>

definition fx_panel :: "df_klems list" where
  "fx_panel =
     concat (map (\<lambda>c. concat (map (\<lambda>p. map (\<lambda>y. fx_klems_row c (fst p) (snd p) y (Fin 100))
                                            [1995, 1996, 1997])
                                [(''28'', ''C28''), (''29'', ''C29-C30'')]))
               [''DE'', ''FR''])"

definition fx_ictwss :: "ictwss_row list" where
  "fx_ictwss =
     [\<lparr>iso3 = ''DEU'', i_year = 1990, i_AdjCov = Some 80, i_Coord = Some 4\<rparr>,
      \<lparr>iso3 = ''DEU'', i_year = 1995, i_AdjCov = Some 70, i_Coord = None\<rparr>,
      \<lparr>iso3 = ''DEU'', i_year = 2000, i_AdjCov = Some 10, i_Coord = Some 1\<rparr>]"

text \<open>The three growth-account rows of one country and year in industry \<open>C28\<close>, with the
  given labour input.\<close>

definition klems_obs :: "string \<Rightarrow> int \<Rightarrow> fval \<Rightarrow> klems_row list" where
  "klems_obs c y lab =
     [\<lparr>geo_code = c, k_nace_r2_code = ''C28'', k_year = Some y, var = ''LAB_QI'', k_value = lab\<rparr>,
      \<lparr>geo_code = c, k_nace_r2_code = ''C28'', k_year = Some y, var = ''VA_PYP'', k_value = Fin 100\<rparr>,
      \<lparr>geo_code = c, k_nace_r2_code = ''C28'', k_year = Some y, var = ''CAP_QI'', k_value = Fin 100\<rparr>]"

text \<open>A small run of the whole pipeline: two countries, one with no robots in 1994.\<close>

definition two_ifr :: "ifr_src list" where
  "two_ifr =
     zero_ifr @
     [\<lparr>country_code = ''AT'', industry_code = ''28'', year = 1994, robot_wrkr_stock_95 = Fin 2\<rparr>,
      \<lparr>country_code = ''AT'', industry_code = ''28'', year = 1995, robot_wrkr_stock_95 = Fin 4\<rparr>]"

definition two_klems :: "klems_row list" where
  "two_klems =
     concat (map (\<lambda>k. map (\<lambda>v. \<lparr>geo_code = fst k, k_nace_r2_code = ''C28'', k_year = Some (snd k),
                                   var = v, k_value = Fin 100\<rparr>)
                         [''LAB_QI'', ''VA_PYP'', ''CAP_QI''])
               [(''DE'', 1995), (''DE'', 1996), (''AT'', 1995)])"

definition two_ictwss :: "ictwss_row list" where
  "two_ictwss =
     [\<lparr>iso3 = ''DEU'', i_year = 1990, i_AdjCov = Some 80, i_Coord = Some 4\<rparr>,
      \<lparr>iso3 = ''DEU'', i_year = 1995, i_AdjCov = Some 70, i_Coord = None\<rparr>,
      \<lparr>iso3 = ''AUT'', i_year = 1992, i_AdjCov = Some 95, i_Coord = Some 5\<rparr>]"

text \<open>Readers that return the frames of the small run and a Eurostat frame that serves
  for GDP and for unemployment, a data directory with the five sources, and an empty
  one. The growth accounts of \<open>no_labour\<close> have no \<open>LAB_QI\<close>.\<close>

definition two_euro :: "eurostat_row list" where
  "two_euro =
     [\<lparr>geo = ''Germany'', TIME_PERIOD = Some 1996, OBS_VALUE = Fin 2000\<rparr>,
      \<lparr>geo = ''Austria'', TIME_PERIOD = Some 1995, OBS_VALUE = Fin 300\<rparr>]"

definition fx_readers :: readers where
  "fx_readers = \<lparr>read_ifr = (\<lambda>s. Inr two_ifr), read_klems = (\<lambda>s. Inr two_klems),
                 read_ictwss = (\<lambda>s. Inr two_ictwss), read_eurostat = (\<lambda>s. Inr two_euro)\<rparr>"

definition no_labour :: readers where
  "no_labour = fx_readers\<lparr>read_klems := (\<lambda>s. Inr (filter (\<lambda>r. var r \<noteq> ''LAB_QI'') two_klems))\<rparr>"

definition fx_files :: files where
  "fx_files = [''IFR_karol.csv'' \<mapsto> ''a'', ''klems_growth_accounts_basic.csv'' \<mapsto> ''b'',
               ''ictwss_institutions.csv'' \<mapsto> ''c'', ''eurostat_gdp_nama_10_gdp.csv'' \<mapsto> ''d'',
               ''eurostat_employment_une_rt_a.csv'' \<mapsto> ''e'']"

definition no_files :: files where
  "no_files = Map.empty"






text \<open>Robot rows of Greece under the code \<open>GR\<close>, and an institutions source with Greece
  under its three-letter code.\<close>

definition greek_ifr :: "ifr_src list" where
  "greek_ifr =
     [\<lparr>country_code = ''GR'', industry_code = ''28'', year = 1994, robot_wrkr_stock_95 = Fin 2\<rparr>,
      \<lparr>country_code = ''GR'', industry_code = ''28'', year = 1995, robot_wrkr_stock_95 = Fin 4\<rparr>]"

definition greek_ictwss :: "ictwss_row list" where
  "greek_ictwss = [\<lparr>iso3 = ''GRC'', i_year = 1990, i_AdjCov = Some 50, i_Coord = Some 4\<rparr>]"

text \<open>A row of a cleaned file, with its country, industry, year, log GDP, coverage and
  centred coverage; the other columns are as in a complete row.\<close>

definition sample_row :: "string \<Rightarrow> string \<Rightarrow> int \<Rightarrow> fval \<Rightarrow> cell \<Rightarrow> cell \<Rightarrow> df_out" where
  "sample_row c n y g a ac =
     \<lparr>country_code = c, industry_code = ''28'', year = y, robot_wrkr_stock_95 = Fin 2,
      ln_robots = Fin (ln 2), ln_robots_lag1 = Fin (ln 2), nace_r2_code = n,
      LAB_QI = Fin 100, VA_PYP = Fin 100, CAP_QI = Fin 100, CAPICT_QI = NaN, CAPNICT_QI = NaN,
      gdp = NaN, unemployment = NaN, AdjCov = a, Coord = None,
      ln_hours = Fin (ln 100), ln_va = Fin (ln 100), ln_cap = Fin (ln 100), ln_gdp = g,
      adjcov = a, coord = None, adjcov_centered = ac, high_coord = None, high_robot_industry = 1,
      entity = c @ ''_28'', year_int = y\<rparr>"

text \<open>A cleaned file without the centred column, in which one of two rows has no GDP.\<close>

definition uncentred_file :: "df_out list" where
  "uncentred_file =
     [sample_row ''DE'' ''C28'' 1995 (Fin 7) (Some 10) None,
      sample_row ''FR'' ''C28'' 1995 NaN (Some 30) None]"





section \<open>Properties of the crosswalk aggregation\<close>

lemma dropna_vals_Some: "dropna_vals (map Some xs) = xs"
  by (induction xs) simp_all

lemma pd_sum_Some: "pd_sum (map Some xs) = sum_list xs"
  by (simp add: pd_sum_def dropna_vals_Some)

lemma map2_pd_mul_Some:
  "map2 pd_mul (map Some xs) (map Some ys) = map Some (map2 (*) xs ys)"
proof (induction xs arbitrary: ys)
  case Nil
  then show ?case by simp
next
  case (Cons x xs)
  then show ?case by (cases ys) (simp_all add: pd_mul_def)
qed

lemma pd_mean_Some:
  "pd_mean (map Some xs) = (if xs = [] then None else Some (sum_list xs / real (length xs)))"
  by (cases xs) (simp_all add: pd_mean_def dropna_vals_Some)

text \<open>Over entries that all have a value and a weight, \<open>wavg\<close> is the weighted average,
  and the plain mean exactly when the weights sum to zero.\<close>

lemma wavg_detailed:
  "wavg (map (detailed k) ps) =
     (if sum_list (map (snd \<circ> snd) ps) = 0
      then (if ps = [] then None
            else Some (sum_list (map (fst \<circ> snd) ps) / real (length ps)))
      else Some (sum_list (map (\<lambda>p. fst (snd p) * snd (snd p)) ps)
                 / sum_list (map (snd \<circ> snd) ps)))"
proof -
  have x: "map replaceability_ind (map (detailed k) ps) = map Some (map (fst \<circ> snd) ps)"
    by (simp add: detailed_def)
  have w: "map w_ind (map (detailed k) ps) = map Some (map (snd \<circ> snd) ps)"
    by (simp add: detailed_def)
  have z: "map2 (*) (map (fst \<circ> snd) ps) (map (snd \<circ> snd) ps)
             = map (\<lambda>p. fst (snd p) * snd (snd p)) ps"
    by (induction ps) (simp_all add: case_prod_beta)
  show ?thesis
    unfolding wavg_def Let_def x w map2_pd_mul_Some pd_sum_Some pd_mean_Some z
    by simp
qed

lemma wavg_fixtures:
  "wavg [detailed k (a, 10, 1), detailed k (b, 20, 3)] = Some 17.5
   \<and> wavg [detailed k (a, 10, 0), detailed k (b, 20, 0)] = Some 15"
  using wavg_detailed [of k "[(a, 10, 1), (b, 20, 3)]"] wavg_detailed [of k "[(a, 10, 0), (b, 20, 0)]"]
  by simp

text \<open>The sums that \<open>wavg\<close> takes, for entries of any kind: the sum of the products runs
  over the entries that have both cells, the sum of the weights over the entries that
  have a weight.\<close>

lemma pd_sum_weights:
  "pd_sum (map w_ind g) = sum_list (map (\<lambda>r. the (w_ind r)) (filter (\<lambda>r. w_ind r \<noteq> None) g))"
  by (induction g) (auto simp: pd_sum_def)

lemma pd_sum_products:
  "pd_sum (map2 pd_mul (map replaceability_ind g) (map w_ind g)) =
     sum_list (map (\<lambda>r. the (replaceability_ind r) * the (w_ind r))
                 (filter (\<lambda>r. replaceability_ind r \<noteq> None \<and> w_ind r \<noteq> None) g))"
  by (induction g) (auto simp: pd_sum_def pd_mul_def split: option.splits)

text \<open>The aggregation has one row for each division from 10 to 33 that occurs, in
  ascending order, and the aggregate of a division is \<open>wavg\<close> of exactly the entries
  that map to it.\<close>

lemma dropna_vals_filter:
  "k \<in> set (dropna_vals (map f (filter (\<lambda>r. case f r of None \<Rightarrow> False | Some n \<Rightarrow> P n) xs)))
     \<Longrightarrow> P k"
proof (induction xs)
  case Nil
  then show ?case by simp
next
  case (Cons a xs)
  show ?case
  proof (cases "f a")
    case None
    with Cons show ?thesis by simp
  next
    case (Some n)
    with Cons show ?thesis by (cases "P n") auto
  qed
qed

lemma weights_nace2_groups:
  "map nace2 (weights_nace2 wm)
     = sort (remdups (dropna_vals (map nace2_num (manufacturing_only wm))))
   \<and> (\<forall>b \<in> set (weights_nace2 wm).
        10 \<le> nace2 b \<and> nace2 b \<le> 33
        \<and> auto_weight_nace2 b = wavg (filter (\<lambda>r. nace2_num r = Some (nace2 b)) wm))"
proof -
  have f: "filter (\<lambda>r. nace2_num r = Some k) (manufacturing_only wm)
             = (if 10 \<le> k \<and> k \<le> 33 then filter (\<lambda>r. nace2_num r = Some k) wm else [])" for k
    by (induction wm) (auto simp: manufacturing_only_def)
  have d: "10 \<le> k \<and> k \<le> 33"
    if "k \<in> set (dropna_vals (map nace2_num (manufacturing_only wm)))" for k
    using that unfolding manufacturing_only_def by (rule dropna_vals_filter)
  show ?thesis
    using d by (auto simp: weights_nace2_def Let_def comp_def f)
qed

text \<open>
  C5. At a bucket with an entry whose value is missing, the aggregate is not the
  weighted average of the bucket's entries: the sum of the products skips the entry,
  and the sum of the weights does not. In the frame \<open>missing_wm\<close> the bucket 20 has the
  values 10 and missing with the weights 1 and 3, and its aggregate is 2.5, below the
  only value it has; the bucket 25, with the values 4 and 8 and the weights 1 and 3,
  has its weighted average 7.
\<close>

theorem wavg_missing_value:
  "map (\<lambda>r. (replaceability_ind r, w_ind r)) (filter (\<lambda>r. nace2_num r = Some 20) missing_wm)
     = [(Some 10, Some 1), (None, Some 3)]
   \<and> wavg (filter (\<lambda>r. nace2_num r = Some 20) missing_wm) = Some (5 / 2)
   \<and> map (\<lambda>b. (nace2 b, auto_weight_nace2 b)) (weights_nace2 missing_wm)
       = [(20, Some (5 / 2)), (25, Some 7)]"
  by (simp add: weights_nace2_def manufacturing_only_def missing_wm_def wavg_def
      pd_sum_def pd_mean_def pd_mul_def)

section \<open>Properties of the shift-share panel\<close>

lemma length_cross_merge: "length (cross_merge L R) = length L * length R"
  by (induction L) (simp_all add: cross_merge_def)

lemma cross_merge_product: "cross_merge L R = List.product L R"
  by (induction L) (simp_all add: cross_merge_def)

lemma length_panel: "length (panel L W) = length L * length W"
  by (simp add: panel_def panel_cross_def length_cross_merge)

lemma mset_panel: "mset (panel L W) = image_mset exposure (mset (List.product L W))"
  by (simp add: panel_def panel_cross_def cross_merge_product)

lemma exposure_fields:
  "ifr_long_row.truncate (exposure (l, w)) = l
   \<and> x_industry_id (exposure (l, w)) = industry_id w
   \<and> x_auto_weight (exposure (l, w)) = auto_weight w
   \<and> robot_exposure (exposure (l, w)) = robot_stock l * auto_weight w"
  by (simp add: exposure_def ifr_long_row.defs exposure_row.defs)

text \<open>
  C9. The panel is the full product of the exposure rows and the weight rows: it has as
  many rows as there are pairs, its rows are exactly the pairs of one exposure row with
  one weight row, each carrying the two rows' columns and the exposure
  \<open>robot_stock * auto_weight\<close>. Two countries with three years each and four industries
  give 24 rows.
\<close>

theorem panel_cartesian_product:
  "length (panel L W) = length L * length W
   \<and> mset (panel L W) = image_mset exposure (mset (List.product L W))
   \<and> ifr_long_row.truncate (exposure (l, w)) = l
   \<and> x_industry_id (exposure (l, w)) = industry_id w
   \<and> x_auto_weight (exposure (l, w)) = auto_weight w
   \<and> robot_exposure (exposure (l, w)) = robot_stock l * auto_weight w
   \<and> length (panel
        (map (\<lambda>cy. \<lparr>country = fst cy, ifr_long_row.year = snd cy, robot_stock = s cy\<rparr>)
             (List.product [c1, c2] [y1, y2, y3]))
        [w1, w2, w3, w4]) = 24"
  using length_panel [of L W] mset_panel [of L W] exposure_fields [of l w]
  by (simp add: length_panel)

section \<open>The lag of the robot variable\<close>

lemma find_rev_upt_Some:
  "find P (rev [0..<j]) = Some i \<longleftrightarrow> i < j \<and> P i \<and> (\<forall>k. i < k \<and> k < j \<longrightarrow> \<not> P k)"
proof (induction j)
  case 0
  then show ?case by simp
next
  case (Suc j)
  show ?case
  proof (cases "P j")
    case True
    then show ?thesis by (auto simp: less_Suc_eq)
  next
    case False
    then show ?thesis using Suc by (auto simp: less_Suc_eq)
  qed
qed



lemma length_ifr_with_lag: "length (ifr_with_lag ifr) = length (ifr_filtered ifr)"
  by (simp add: ifr_with_lag_def Let_def)

lemma ifr_with_lag_nth:
  assumes "j < length (ifr_filtered ifr)"
  shows "ifr_src.truncate (ifr_with_lag ifr ! j) = ifr_filtered ifr ! j"
    and "ln_robots (ifr_with_lag ifr ! j) = np_log (replace0 (robot_wrkr_stock_95 (ifr_filtered ifr ! j)))"
    and "ln_robots_lag1 (ifr_with_lag ifr ! j) =
           (case prev_in_group entity_of (ifr_filtered ifr) j of
              None \<Rightarrow> NaN
            | Some i \<Rightarrow> np_log (replace0 (robot_wrkr_stock_95 (ifr_filtered ifr ! i))))"
proof -
  show "ifr_src.truncate (ifr_with_lag ifr ! j) = ifr_filtered ifr ! j"
    using assms by (simp add: ifr_with_lag_def Let_def ifr_src.defs ifr_lag.defs)
  show "ln_robots (ifr_with_lag ifr ! j) = np_log (replace0 (robot_wrkr_stock_95 (ifr_filtered ifr ! j)))"
    using assms by (simp add: ifr_with_lag_def Let_def ifr_src.defs ifr_lag.defs ln_robots_col_def)
  have "\<And>i. prev_in_group entity_of (ifr_filtered ifr) j = Some i \<Longrightarrow> i < length (ifr_filtered ifr)"
    using assms by (auto simp: prev_in_group_def find_rev_upt_Some)
  then show "ln_robots_lag1 (ifr_with_lag ifr ! j) =
           (case prev_in_group entity_of (ifr_filtered ifr) j of
              None \<Rightarrow> NaN
            | Some i \<Rightarrow> np_log (replace0 (robot_wrkr_stock_95 (ifr_filtered ifr ! i))))"
    using assms
    by (auto simp: ifr_with_lag_def Let_def ifr_src.defs ifr_lag.defs ln_robots_col_def
        group_shift1_def split: option.splits)
qed






lemma gap_ifr_filtered: "ifr_filtered gap_ifr = gap_ifr"
  by (simp add: gap_ifr_def ifr_filtered_def ifr_country_def EU_ISO2_def IFR_TO_NACE_def)

lemma unsorted_ifr_filtered: "ifr_filtered unsorted_ifr = unsorted_ifr"
  by (simp add: unsorted_ifr_def ifr_filtered_def ifr_country_def EU_ISO2_def IFR_TO_NACE_def)

lemma lag_ifr_filtered: "ifr_filtered lag_ifr = lag_ifr"
  by (simp add: lag_ifr_def ifr_filtered_def ifr_country_def EU_ISO2_def IFR_TO_NACE_def)

lemma lag_ifr_eval:
  "map ln_robots_lag1 (ifr_with_lag lag_ifr) = [NaN, Fin (ln 2), NaN, Fin (ln 3)]
   \<and> map ln_robots (ifr_with_lag lag_ifr) = [Fin (ln 2), Fin (ln 3), Fin (ln 7), Fin (ln 5)]
   \<and> map year (ifr_with_lag lag_ifr) = [1995, 1996, 1996, 1998]
   \<and> map entity_of (ifr_with_lag lag_ifr)
       = [(''DE'', ''28''), (''DE'', ''28''), (''FR'', ''28''), (''DE'', ''28'')]"
  unfolding ifr_with_lag_def Let_def lag_ifr_filtered
  by (simp add: lag_ifr_def ifr_src.defs ifr_lag.defs ln_robots_col_def
        group_shift1_def prev_in_group_def entity_of_def np_log_def replace0_def
        upt_conv_Cons)

text \<open>
  C1. The shift that makes the lag is by row position inside the entity, on the frame
  in the order of the file; the script does not sort the frame and does not look at the
  years. With rows for 1995 and 1997 only, the lag at 1997 is not missing: it is
  \<open>ln_robots\<close> of 1995, carried across the gap. With the row of 1996 before the row of
  1995 in the file, the lag at 1995, the entity's first observed year, is \<open>ln_robots\<close>
  of 1996, and the lag at 1996 is missing, not \<open>ln_robots\<close> of 1995.
\<close>

theorem lag_carried_across_gap:
  "map entity_of (ifr_with_lag gap_ifr) = [(''DE'', ''28''), (''DE'', ''28'')]
   \<and> map year (ifr_with_lag gap_ifr) = [1995, 1997]
   \<and> map ln_robots (ifr_with_lag gap_ifr) = [Fin (ln 2), Fin (ln 3)]
   \<and> map ln_robots_lag1 (ifr_with_lag gap_ifr) = [NaN, Fin (ln 2)]
   \<and> map entity_of (ifr_with_lag unsorted_ifr) = [(''DE'', ''28''), (''DE'', ''28'')]
   \<and> map year (ifr_with_lag unsorted_ifr) = [1996, 1995]
   \<and> map ln_robots (ifr_with_lag unsorted_ifr) = [Fin (ln 3), Fin (ln 2)]
   \<and> map ln_robots_lag1 (ifr_with_lag unsorted_ifr) = [NaN, Fin (ln 3)]"
proof -
  have a: "map entity_of (ifr_with_lag gap_ifr) = [(''DE'', ''28''), (''DE'', ''28'')]
           \<and> map year (ifr_with_lag gap_ifr) = [1995, 1997]
           \<and> map ln_robots (ifr_with_lag gap_ifr) = [Fin (ln 2), Fin (ln 3)]
           \<and> map ln_robots_lag1 (ifr_with_lag gap_ifr) = [NaN, Fin (ln 2)]"
    unfolding ifr_with_lag_def Let_def gap_ifr_filtered
    by (simp add: gap_ifr_def ifr_src.defs ifr_lag.defs ln_robots_col_def
          group_shift1_def prev_in_group_def entity_of_def np_log_def replace0_def
          upt_conv_Cons)
  have b: "map entity_of (ifr_with_lag unsorted_ifr) = [(''DE'', ''28''), (''DE'', ''28'')]
           \<and> map year (ifr_with_lag unsorted_ifr) = [1996, 1995]
           \<and> map ln_robots (ifr_with_lag unsorted_ifr) = [Fin (ln 3), Fin (ln 2)]
           \<and> map ln_robots_lag1 (ifr_with_lag unsorted_ifr) = [NaN, Fin (ln 3)]"
    unfolding ifr_with_lag_def Let_def unsorted_ifr_filtered
    by (simp add: unsorted_ifr_def ifr_src.defs ifr_lag.defs ln_robots_col_def
          group_shift1_def prev_in_group_def entity_of_def np_log_def replace0_def
          upt_conv_Cons)
  from a b show ?thesis by (intro conjI) (erule conjE | assumption)+
qed

section \<open>Logarithms\<close>

lemma np_log_clip:
  "np_log (clip_lower (1 / 10) x) =
     (case x of
        NaN \<Rightarrow> NaN
      | NegInf \<Rightarrow> Fin (ln (1 / 10))
      | PosInf \<Rightarrow> PosInf
      | Fin v \<Rightarrow> Fin (ln (max (1 / 10) v)))"
  by (cases x) (auto simp: np_log_def clip_lower_def max_def)

lemma np_log_replace0:
  "np_log (replace0 x) =
     (case x of
        NaN \<Rightarrow> NaN
      | NegInf \<Rightarrow> NaN
      | PosInf \<Rightarrow> PosInf
      | Fin v \<Rightarrow> if 0 < v then Fin (ln v) else NaN)"
  by (cases x) (auto simp: np_log_def replace0_def)

lemmas row_defs = df_out.defs df_vars.defs df_inst.defs df_une.defs df_gdp.defs
      df_klems.defs ifr_nace.defs ifr_lag.defs ifr_src.defs

lemma build_vars_logs:
  assumes "r \<in> set (build_vars df)"
  shows "ln_hours r = np_log (clip_lower (1 / 10) (LAB_QI r))"
    and "ln_va r = np_log (clip_lower (1 / 10) (VA_PYP r))"
    and "ln_cap r = np_log (clip_lower (1 / 10) (CAP_QI r))"
    and "ln_gdp r = np_log (clip_lower (1 / 10) (gdp r))"
  using assms
  by (auto simp: build_vars_def Let_def row_defs)

lemma ifr_with_lag_robot:
  assumes "r \<in> set (ifr_with_lag ifr)"
  shows "ln_robots r = np_log (replace0 (robot_wrkr_stock_95 r))"
proof -
  from assms obtain j where j: "j < length (ifr_filtered ifr)" "r = ifr_with_lag ifr ! j"
    by (auto simp: in_set_conv_nth length_ifr_with_lag)
  have "robot_wrkr_stock_95 (ifr_with_lag ifr ! j) = robot_wrkr_stock_95 (ifr_filtered ifr ! j)"
    using j(1) by (simp add: ifr_with_lag_def Let_def ifr_src.defs ifr_lag.defs)
  with ifr_with_lag_nth(2) [OF j(1)] j(2) show ?thesis by simp
qed

lemma zero_ifr_filtered: "ifr_filtered zero_ifr = zero_ifr"
  by (simp add: zero_ifr_def ifr_filtered_def ifr_country_def EU_ISO2_def IFR_TO_NACE_def)

lemma zero_ifr_eval:
  "map robot_wrkr_stock_95 (ifr_with_lag zero_ifr) = [Fin 0, Fin 2, Fin 3]
   \<and> map ln_robots (ifr_with_lag zero_ifr) = [NaN, Fin (ln 2), Fin (ln 3)]
   \<and> map ln_robots_lag1 (ifr_with_lag zero_ifr) = [NaN, NaN, Fin (ln 2)]"
  unfolding ifr_with_lag_def Let_def zero_ifr_filtered
  by (simp add: zero_ifr_def ifr_src.defs ifr_lag.defs ln_robots_col_def
        group_shift1_def prev_in_group_def entity_of_def np_log_def replace0_def
        upt_conv_Cons)

lemma fx_inst_eval:
  "map LAB_QI (build_vars (fx_inst lab)) = [lab]
   \<and> map ln_hours (build_vars (fx_inst lab)) = [np_log (clip_lower (1 / 10) lab)]
   \<and> map gdp (build_vars (fx_inst lab)) = [NaN]
   \<and> map ln_gdp (build_vars (fx_inst lab)) = [NaN]"
  by (simp add: fx_inst_def merge_inst_def merge_une_def merge_gdp_def merge_left_def
      build_vars_def Let_def fx_klems_row_def row_defs np_log_def clip_lower_def)

lemma floor_logs:
  "np_log (clip_lower (1 / 10) (Fin 0)) = Fin (ln (1 / 10))
   \<and> np_log (clip_lower (1 / 10) PosInf) = PosInf"
  by (simp add: np_log_def clip_lower_def)

text \<open>
  C2. For \<open>ln_hours\<close>, \<open>ln_va\<close>, \<open>ln_cap\<close> and \<open>ln_gdp\<close> the log is taken of the value
  clipped up to 0.1. It is missing exactly when the raw value is missing, and it is
  never minus infinity. It is a finite number, the log of the larger of the raw value
  and 0.1, when the raw value is a finite number; it is the log of 0.1 for a raw value
  of minus infinity, and plus infinity for a raw value of plus infinity. The robot log
  has no floor: it is the log of a finite positive stock, plus infinity for a stock of
  plus infinity, and missing for a stock of zero, a negative or a missing one; it is
  never minus infinity either.
\<close>

theorem logs_defined:
  "(\<forall>r \<in> set (build_vars df).
      ln_hours r = (case LAB_QI r of NaN \<Rightarrow> NaN | NegInf \<Rightarrow> Fin (ln (1 / 10)) | PosInf \<Rightarrow> PosInf
                    | Fin x \<Rightarrow> Fin (ln (max (1 / 10) x)))
    \<and> ln_va r = (case VA_PYP r of NaN \<Rightarrow> NaN | NegInf \<Rightarrow> Fin (ln (1 / 10)) | PosInf \<Rightarrow> PosInf
                    | Fin x \<Rightarrow> Fin (ln (max (1 / 10) x)))
    \<and> ln_cap r = (case CAP_QI r of NaN \<Rightarrow> NaN | NegInf \<Rightarrow> Fin (ln (1 / 10)) | PosInf \<Rightarrow> PosInf
                    | Fin x \<Rightarrow> Fin (ln (max (1 / 10) x)))
    \<and> ln_gdp r = (case gdp r of NaN \<Rightarrow> NaN | NegInf \<Rightarrow> Fin (ln (1 / 10)) | PosInf \<Rightarrow> PosInf
                    | Fin x \<Rightarrow> Fin (ln (max (1 / 10) x)))
    \<and> (ln_hours r = NaN \<longleftrightarrow> LAB_QI r = NaN) \<and> (ln_va r = NaN \<longleftrightarrow> VA_PYP r = NaN)
    \<and> (ln_cap r = NaN \<longleftrightarrow> CAP_QI r = NaN) \<and> (ln_gdp r = NaN \<longleftrightarrow> gdp r = NaN)
    \<and> ln_hours r \<noteq> NegInf \<and> ln_va r \<noteq> NegInf \<and> ln_cap r \<noteq> NegInf \<and> ln_gdp r \<noteq> NegInf)
   \<and> (\<forall>r \<in> set (ifr_with_lag ifr).
      ln_robots r =
        (case robot_wrkr_stock_95 r of NaN \<Rightarrow> NaN | NegInf \<Rightarrow> NaN | PosInf \<Rightarrow> PosInf
         | Fin x \<Rightarrow> if 0 < x then Fin (ln x) else NaN)
      \<and> ln_robots r \<noteq> NegInf)"
proof -
  have a: "ln_hours r = (case LAB_QI r of NaN \<Rightarrow> NaN | NegInf \<Rightarrow> Fin (ln (1 / 10)) | PosInf \<Rightarrow> PosInf
                    | Fin x \<Rightarrow> Fin (ln (max (1 / 10) x)))
    \<and> ln_va r = (case VA_PYP r of NaN \<Rightarrow> NaN | NegInf \<Rightarrow> Fin (ln (1 / 10)) | PosInf \<Rightarrow> PosInf
                    | Fin x \<Rightarrow> Fin (ln (max (1 / 10) x)))
    \<and> ln_cap r = (case CAP_QI r of NaN \<Rightarrow> NaN | NegInf \<Rightarrow> Fin (ln (1 / 10)) | PosInf \<Rightarrow> PosInf
                    | Fin x \<Rightarrow> Fin (ln (max (1 / 10) x)))
    \<and> ln_gdp r = (case gdp r of NaN \<Rightarrow> NaN | NegInf \<Rightarrow> Fin (ln (1 / 10)) | PosInf \<Rightarrow> PosInf
                    | Fin x \<Rightarrow> Fin (ln (max (1 / 10) x)))
    \<and> (ln_hours r = NaN \<longleftrightarrow> LAB_QI r = NaN) \<and> (ln_va r = NaN \<longleftrightarrow> VA_PYP r = NaN)
    \<and> (ln_cap r = NaN \<longleftrightarrow> CAP_QI r = NaN) \<and> (ln_gdp r = NaN \<longleftrightarrow> gdp r = NaN)
    \<and> ln_hours r \<noteq> NegInf \<and> ln_va r \<noteq> NegInf \<and> ln_cap r \<noteq> NegInf \<and> ln_gdp r \<noteq> NegInf"
    if r: "r \<in> set (build_vars df)" for r
  proof -
    note l = build_vars_logs [OF r]
    have 1: "ln_hours r = (case LAB_QI r of NaN \<Rightarrow> NaN | NegInf \<Rightarrow> Fin (ln (1 / 10))
                | PosInf \<Rightarrow> PosInf | Fin x \<Rightarrow> Fin (ln (max (1 / 10) x)))"
      by (simp add: l np_log_clip)
    have 2: "ln_va r = (case VA_PYP r of NaN \<Rightarrow> NaN | NegInf \<Rightarrow> Fin (ln (1 / 10))
                | PosInf \<Rightarrow> PosInf | Fin x \<Rightarrow> Fin (ln (max (1 / 10) x)))"
      by (simp add: l np_log_clip)
    have 3: "ln_cap r = (case CAP_QI r of NaN \<Rightarrow> NaN | NegInf \<Rightarrow> Fin (ln (1 / 10))
                | PosInf \<Rightarrow> PosInf | Fin x \<Rightarrow> Fin (ln (max (1 / 10) x)))"
      by (simp add: l np_log_clip)
    have 4: "ln_gdp r = (case gdp r of NaN \<Rightarrow> NaN | NegInf \<Rightarrow> Fin (ln (1 / 10))
                | PosInf \<Rightarrow> PosInf | Fin x \<Rightarrow> Fin (ln (max (1 / 10) x)))"
      by (simp add: l np_log_clip)
    have 5: "(ln_hours r = NaN \<longleftrightarrow> LAB_QI r = NaN)" "(ln_va r = NaN \<longleftrightarrow> VA_PYP r = NaN)"
      "(ln_cap r = NaN \<longleftrightarrow> CAP_QI r = NaN)" "(ln_gdp r = NaN \<longleftrightarrow> gdp r = NaN)"
      unfolding 1 2 3 4 by (simp_all split: fval.splits)
    have 6: "ln_hours r \<noteq> NegInf" "ln_va r \<noteq> NegInf" "ln_cap r \<noteq> NegInf" "ln_gdp r \<noteq> NegInf"
      unfolding 1 2 3 4 by (simp_all split: fval.splits)
    show ?thesis by (intro conjI) (rule 1 2 3 4 5 6)+
  qed
  have b: "ln_robots r =
        (case robot_wrkr_stock_95 r of NaN \<Rightarrow> NaN | NegInf \<Rightarrow> NaN | PosInf \<Rightarrow> PosInf
         | Fin x \<Rightarrow> if 0 < x then Fin (ln x) else NaN)
      \<and> ln_robots r \<noteq> NegInf"
    if r: "r \<in> set (ifr_with_lag ifr)" for r
    by (simp add: ifr_with_lag_robot [OF r] np_log_replace0 split: fval.splits)
  from a b show ?thesis by blast
qed

theorem logs_defined_witness:
  "map LAB_QI (build_vars (fx_inst (Fin 0))) = [Fin 0]
   \<and> map ln_hours (build_vars (fx_inst (Fin 0))) = [Fin (ln (1 / 10))]
   \<and> map gdp (build_vars (fx_inst (Fin 0))) = [NaN]
   \<and> map ln_gdp (build_vars (fx_inst (Fin 0))) = [NaN]
   \<and> map ln_robots (ifr_with_lag lag_ifr) = [Fin (ln 2), Fin (ln 3), Fin (ln 7), Fin (ln 5)]"
proof -
  note logs_defined [of "fx_inst (Fin 0)" lag_ifr]
  with fx_inst_eval [of "Fin 0"] floor_logs lag_ifr_eval show ?thesis by simp
qed

text \<open>
  C2 as stated fails for the robot log, where a robot stock of zero is not missing and
  its log is, and for a raw value of plus infinity, which is not missing and whose log
  is not finite.
\<close>

theorem robot_log_missing_at_zero:
  "map robot_wrkr_stock_95 (ifr_with_lag zero_ifr) = [Fin 0, Fin 2, Fin 3]
   \<and> map ln_robots (ifr_with_lag zero_ifr) = [NaN, Fin (ln 2), Fin (ln 3)]
   \<and> map LAB_QI (build_vars (fx_inst PosInf)) = [PosInf]
   \<and> map ln_hours (build_vars (fx_inst PosInf)) = [PosInf]"
  using zero_ifr_eval fx_inst_eval [of PosInf] floor_logs by simp

section \<open>The left joins\<close>

lemma filter_distinct_key:
  "distinct (map kr R) \<Longrightarrow>
     filter (\<lambda>r. kr r = k) R = (case find (\<lambda>r. kr r = k) R of None \<Rightarrow> [] | Some m \<Rightarrow> [m])"
proof (induction R)
  case Nil
  then show ?case by simp
next
  case (Cons a R)
  show ?case
  proof (cases "kr a = k")
    case True
    with Cons.prems have "\<forall>r \<in> set R. kr r \<noteq> k" by (fastforce simp: image_iff)
    then have "filter (\<lambda>r. kr r = k) R = []" by (simp add: filter_empty_conv)
    with True show ?thesis by simp
  next
    case False
    with Cons show ?thesis by simp
  qed
qed

lemma merge_left_distinct:
  assumes "distinct (map kr R)"
  shows "merge_left kl kr comb L R = map (\<lambda>l. comb l (find (\<lambda>r. kr r = kl l) R)) L"
proof -
  have "(case filter (\<lambda>r. kr r = k) R of [] \<Rightarrow> [comb l None]
          | m # ms \<Rightarrow> map (\<lambda>r. comb l (Some r)) (m # ms))
        = [comb l (find (\<lambda>r. kr r = k) R)]" for l k
    unfolding filter_distinct_key [OF assms] by (simp split: option.splits)
  then show ?thesis by (simp add: merge_left_def)
qed

lemma distinct_country_year_first: "distinct (map fst (country_year_first E))"
  by (simp add: country_year_first_def Let_def comp_def)

lemma distinct_ictwss_baseline: "distinct (map b_country_code (ictwss_baseline I))"
  by (simp add: ictwss_baseline_def Let_def comp_def)

lemma merge_gdp_map:
  "merge_gdp df (country_year_first G) =
     map (\<lambda>r. df_klems.extend r
                 (df_gdp.fields (case find (\<lambda>p. fst p = (country_code r, year r)) (country_year_first G) of
                                   None \<Rightarrow> NaN | Some p \<Rightarrow> snd p))) df"
  unfolding merge_gdp_def by (rule merge_left_distinct [OF distinct_country_year_first])

lemma merge_une_map:
  "merge_une df (country_year_first U) =
     map (\<lambda>r. df_gdp.extend r
                 (df_une.fields (case find (\<lambda>p. fst p = (country_code r, year r)) (country_year_first U) of
                                   None \<Rightarrow> NaN | Some p \<Rightarrow> snd p))) df"
  unfolding merge_une_def by (rule merge_left_distinct [OF distinct_country_year_first])

lemma merge_inst_map:
  "merge_inst df (ictwss_baseline I) =
     map (\<lambda>r. df_une.extend r
                 (df_inst.fields
                    (case find (\<lambda>x. b_country_code x = country_code r) (ictwss_baseline I) of
                       None \<Rightarrow> None | Some x \<Rightarrow> b_AdjCov x)
                    (case find (\<lambda>x. b_country_code x = country_code r) (ictwss_baseline I) of
                       None \<Rightarrow> None | Some x \<Rightarrow> b_Coord x))) df"
  unfolding merge_inst_def by (rule merge_left_distinct [OF distinct_ictwss_baseline])

lemma find_distinct_key:
  "distinct (map kr R) \<Longrightarrow> x \<in> set R \<Longrightarrow> find (\<lambda>r. kr r = kr x) R = Some x"
  by (induction R) (auto simp: rev_image_eqI)

lemma find_no_key:
  "k \<notin> kr ` set R \<Longrightarrow> find (\<lambda>r. kr r = k) R = None"
  by (auto simp: find_None_iff)

lemma fx_baseline:
  "ictwss_baseline fx_ictwss = [\<lparr>b_country_code = ''DE'', b_AdjCov = Some 75, b_Coord = Some 4\<rparr>]"
  by (simp add: ictwss_baseline_def base_years_def fx_ictwss_def ictwss_country_def ISO3_TO_ISO2_def
      EU_ISO2_def List.map_filter_simps safe_mean_def pd_mean_def Let_def)

lemma fx_empty: "country_year_first [] = []"
  by (simp add: country_year_first_def eurostat_keyed_def List.map_filter_simps)

lemma fx_panel_eval:
  "length fx_panel = 12
   \<and> map country_code
       (merge_inst (merge_une (merge_gdp fx_panel (country_year_first [])) (country_year_first []))
          (ictwss_baseline fx_ictwss))
      = [''DE'', ''DE'', ''DE'', ''DE'', ''DE'', ''DE'', ''FR'', ''FR'', ''FR'', ''FR'', ''FR'', ''FR'']
   \<and> map AdjCov
       (merge_inst (merge_une (merge_gdp fx_panel (country_year_first [])) (country_year_first []))
          (ictwss_baseline fx_ictwss))
      = [Some 75, Some 75, Some 75, Some 75, Some 75, Some 75, None, None, None, None, None, None]
   \<and> map Coord
       (merge_inst (merge_une (merge_gdp fx_panel (country_year_first [])) (country_year_first []))
          (ictwss_baseline fx_ictwss))
      = [Some 4, Some 4, Some 4, Some 4, Some 4, Some 4, None, None, None, None, None, None]"
  unfolding fx_baseline fx_empty
  by (simp add: fx_panel_def fx_klems_row_def merge_inst_def merge_une_def merge_gdp_def
      merge_left_def row_defs)

text \<open>
  C3. The three left joins of the country-level sources remove no row and add none: the
  frame after them has as many rows as the frame before, in the same order, and each
  row keeps all its earlier columns. The institutional columns of a row are missing
  when its country has no baseline row, and are the baseline's values otherwise. On
  the fixture of twelve rows, all twelve survive, and exactly the six rows of the
  country without institutional data have missing institutional columns.
\<close>

theorem left_joins_keep_rows:
  "length (merge_inst (merge_une (merge_gdp df (country_year_first G)) (country_year_first U))
             (ictwss_baseline I)) = length df
   \<and> map df_klems.truncate
        (merge_inst (merge_une (merge_gdp df (country_year_first G)) (country_year_first U))
           (ictwss_baseline I)) = df
   \<and> map df_une.truncate
        (merge_inst (merge_une (merge_gdp df (country_year_first G)) (country_year_first U))
           (ictwss_baseline I))
       = merge_une (merge_gdp df (country_year_first G)) (country_year_first U)
   \<and> (\<forall>r \<in> set (merge_inst (merge_une (merge_gdp df (country_year_first G))
                                 (country_year_first U)) (ictwss_baseline I)).
        (country_code r \<notin> b_country_code ` set (ictwss_baseline I)
           \<longrightarrow> AdjCov r = None \<and> Coord r = None)
        \<and> (\<forall>x \<in> set (ictwss_baseline I). b_country_code x = country_code r
              \<longrightarrow> AdjCov r = b_AdjCov x \<and> Coord r = b_Coord x))"
proof -
  let ?P = "merge_inst (merge_une (merge_gdp df (country_year_first G)) (country_year_first U))
             (ictwss_baseline I)"
  have p1: "length ?P = length df"
    by (simp add: merge_inst_map merge_une_map merge_gdp_map)
  have p2: "map df_klems.truncate ?P = df"
    by (simp add: merge_inst_map merge_une_map merge_gdp_map comp_def row_defs map_idI)
  have p3: "map df_une.truncate ?P
              = merge_une (merge_gdp df (country_year_first G)) (country_year_first U)"
    unfolding merge_inst_map by (simp add: comp_def row_defs map_idI)
  have p4: "\<forall>r \<in> set ?P.
        (country_code r \<notin> b_country_code ` set (ictwss_baseline I)
           \<longrightarrow> AdjCov r = None \<and> Coord r = None)
        \<and> (\<forall>x \<in> set (ictwss_baseline I). b_country_code x = country_code r
              \<longrightarrow> AdjCov r = b_AdjCov x \<and> Coord r = b_Coord x)"
  proof
    fix r
    assume r: "r \<in> set ?P"
    then obtain l where l: "r = df_une.extend l
                 (df_inst.fields
                    (case find (\<lambda>x. b_country_code x = country_code l) (ictwss_baseline I) of
                       None \<Rightarrow> None | Some x \<Rightarrow> b_AdjCov x)
                    (case find (\<lambda>x. b_country_code x = country_code l) (ictwss_baseline I) of
                       None \<Rightarrow> None | Some x \<Rightarrow> b_Coord x))"
      unfolding merge_inst_map by auto
    have c: "country_code r = country_code l" by (simp add: l row_defs)
    have a: "AdjCov r = (case find (\<lambda>x. b_country_code x = country_code r) (ictwss_baseline I) of
                       None \<Rightarrow> None | Some x \<Rightarrow> b_AdjCov x)"
      unfolding c by (simp add: l row_defs)
    have b: "Coord r = (case find (\<lambda>x. b_country_code x = country_code r) (ictwss_baseline I) of
                       None \<Rightarrow> None | Some x \<Rightarrow> b_Coord x)"
      unfolding c by (simp add: l row_defs)
    have n: "country_code r \<notin> b_country_code ` set (ictwss_baseline I)
           \<longrightarrow> AdjCov r = None \<and> Coord r = None"
      by (simp add: a b find_no_key)
    have y: "\<forall>x \<in> set (ictwss_baseline I). b_country_code x = country_code r
              \<longrightarrow> AdjCov r = b_AdjCov x \<and> Coord r = b_Coord x"
    proof (intro ballI impI)
      fix x assume x: "x \<in> set (ictwss_baseline I)" "b_country_code x = country_code r"
      from find_distinct_key [OF distinct_ictwss_baseline x(1)] x(2)
      have "find (\<lambda>y. b_country_code y = country_code r) (ictwss_baseline I) = Some x" by simp
      then show "AdjCov r = b_AdjCov x \<and> Coord r = b_Coord x" by (simp add: a b)
    qed
    from n y show "(country_code r \<notin> b_country_code ` set (ictwss_baseline I)
           \<longrightarrow> AdjCov r = None \<and> Coord r = None)
        \<and> (\<forall>x \<in> set (ictwss_baseline I). b_country_code x = country_code r
              \<longrightarrow> AdjCov r = b_AdjCov x \<and> Coord r = b_Coord x)" ..
  qed
  show ?thesis by (intro conjI) (rule p1 p2 p3 p4)+
qed

theorem left_joins_keep_rows_witness:
  "length fx_panel = 12
   \<and> length (merge_inst (merge_une (merge_gdp fx_panel (country_year_first []))
                (country_year_first [])) (ictwss_baseline fx_ictwss)) = 12
   \<and> map country_code
       (merge_inst (merge_une (merge_gdp fx_panel (country_year_first [])) (country_year_first []))
          (ictwss_baseline fx_ictwss))
      = [''DE'', ''DE'', ''DE'', ''DE'', ''DE'', ''DE'', ''FR'', ''FR'', ''FR'', ''FR'', ''FR'', ''FR'']
   \<and> map AdjCov
       (merge_inst (merge_une (merge_gdp fx_panel (country_year_first [])) (country_year_first []))
          (ictwss_baseline fx_ictwss))
      = [Some 75, Some 75, Some 75, Some 75, Some 75, Some 75, None, None, None, None, None, None]
   \<and> map Coord
       (merge_inst (merge_une (merge_gdp fx_panel (country_year_first [])) (country_year_first []))
          (ictwss_baseline fx_ictwss))
      = [Some 4, Some 4, Some 4, Some 4, Some 4, Some 4, None, None, None, None, None, None]"
proof -
  note t = left_joins_keep_rows [of fx_panel "[]" "[]" fx_ictwss, THEN conjunct1]
  from fx_panel_eval have n: "length fx_panel = 12" by (rule conjunct1)
  from t n have "length (merge_inst (merge_une (merge_gdp fx_panel (country_year_first []))
                (country_year_first [])) (ictwss_baseline fx_ictwss)) = 12" by (rule trans)
  with fx_panel_eval show ?thesis by (intro conjI) (erule conjE | assumption)+
qed

section \<open>The rows that are written\<close>










lemma two_ifr_filtered: "ifr_filtered two_ifr = two_ifr"
  by (simp add: two_ifr_def zero_ifr_def ifr_filtered_def ifr_country_def EU_ISO2_def IFR_TO_NACE_def)

lemma two_step1:
  "ifr_step1 two_ifr =
     [\<lparr>country_code = ''DE'', industry_code = ''28'', year = 1995, robot_wrkr_stock_95 = Fin 2,
       ln_robots = Fin (ln 2), ln_robots_lag1 = NaN\<rparr>,
      \<lparr>country_code = ''DE'', industry_code = ''28'', year = 1996, robot_wrkr_stock_95 = Fin 3,
       ln_robots = Fin (ln 3), ln_robots_lag1 = Fin (ln 2)\<rparr>,
      \<lparr>country_code = ''AT'', industry_code = ''28'', year = 1995, robot_wrkr_stock_95 = Fin 4,
       ln_robots = Fin (ln 4), ln_robots_lag1 = Fin (ln 2)\<rparr>]"
  unfolding ifr_step1_def ifr_with_lag_def Let_def two_ifr_filtered
  by (simp add: two_ifr_def zero_ifr_def ifr_src.defs ifr_lag.defs ln_robots_col_def
        group_shift1_def prev_in_group_def entity_of_def np_log_def replace0_def
        upt_conv_Cons)

lemma two_klems_wide:
  "klems_wide two_klems =
     [\<lparr>w_key = (''AT'', ''C28'', 1995), w_LAB_QI = Fin 100, w_VA_PYP = Fin 100, w_CAP_QI = Fin 100,
       w_CAPICT_QI = NaN, w_CAPNICT_QI = NaN\<rparr>,
      \<lparr>w_key = (''DE'', ''C28'', 1995), w_LAB_QI = Fin 100, w_VA_PYP = Fin 100, w_CAP_QI = Fin 100,
       w_CAPICT_QI = NaN, w_CAPNICT_QI = NaN\<rparr>,
      \<lparr>w_key = (''DE'', ''C28'', 1996), w_LAB_QI = Fin 100, w_VA_PYP = Fin 100, w_CAP_QI = Fin 100,
       w_CAPICT_QI = NaN, w_CAPNICT_QI = NaN\<rparr>]"
  by (simp add: klems_wide_def klems_filtered_def klems_country_def EU_ISO2_def vars_needed_def
     two_klems_def klems_key_of_def pivot_cell_def first_notna_def Let_def)

lemma two_baseline:
  "ictwss_baseline two_ictwss =
     [\<lparr>b_country_code = ''AT'', b_AdjCov = Some 95, b_Coord = Some 5\<rparr>,
      \<lparr>b_country_code = ''DE'', b_AdjCov = Some 75, b_Coord = Some 4\<rparr>]"
  by (simp add: ictwss_baseline_def base_years_def two_ictwss_def ictwss_country_def ISO3_TO_ISO2_def
      EU_ISO2_def safe_mean_def pd_mean_def Let_def)

lemma two_merged:
  "map (\<lambda>r. (country_code r, year r, ln_robots_lag1 r, LAB_QI r, AdjCov r))
       (merged_panel two_ifr two_klems two_ictwss [] [])
     = [(''DE'', 1995, NaN, Fin 100, Some 75),
        (''DE'', 1996, Fin (ln 2), Fin 100, Some 75),
        (''AT'', 1995, Fin (ln 2), Fin 100, Some 95)]"
  unfolding merged_panel_def two_step1 two_klems_wide two_baseline fx_empty
  by (simp add: merge_inst_def merge_une_def merge_gdp_def merge_klems_def merge_left_def
      merge_inner_def add_nace_def IFR_TO_NACE_def row_defs)

lemma two_cleaned:
  "map country_code (cleaned_data two_ifr two_klems two_ictwss [] []) = [''DE'', ''AT'']
   \<and> map year (cleaned_data two_ifr two_klems two_ictwss [] []) = [1996, 1995]
   \<and> map ln_robots_lag1 (cleaned_data two_ifr two_klems two_ictwss [] []) = [Fin (ln 2), Fin (ln 2)]
   \<and> map ln_hours (cleaned_data two_ifr two_klems two_ictwss [] []) = [Fin (ln 100), Fin (ln 100)]
   \<and> map adjcov (cleaned_data two_ifr two_klems two_ictwss [] []) = [Some 75, Some 95]
   \<and> map adjcov_centered (cleaned_data two_ifr two_klems two_ictwss [] [])
       = [Some (75 - 245 / 3), Some (95 - 245 / 3)]"
  unfolding cleaned_data_def merged_panel_def two_step1 two_klems_wide two_baseline fx_empty
  by (simp add: merge_inst_def merge_une_def merge_gdp_def merge_klems_def merge_left_def
      merge_inner_def add_nace_def IFR_TO_NACE_def row_defs add_index_def dropna_required_def
      build_vars_def Let_def np_log_def clip_lower_def pd_mean_def pd_sub_def)

text \<open>The pivot of the three growth-account rows of one country and year.\<close>

lemma klems_obs_wide:
  assumes "c \<in> set EU_ISO2" and "lab \<noteq> NaN"
  shows "klems_wide (klems_obs c y lab) =
     [\<lparr>w_key = (c, ''C28'', y), w_LAB_QI = lab, w_VA_PYP = Fin 100, w_CAP_QI = Fin 100,
       w_CAPICT_QI = NaN, w_CAPNICT_QI = NaN\<rparr>]"
  using assms
  by (simp add: klems_wide_def klems_filtered_def klems_country_def vars_needed_def
     klems_obs_def klems_key_of_def pivot_cell_def first_notna_def Let_def List.map_filter_simps)














section \<open>Country codes\<close>

text \<open>For every country but Greece the alias forms agree: the three-letter code of a
  two-letter code maps back to it, and a country name maps to a two-letter code whose
  three-letter code maps to the same.\<close>

lemma iso3_part:
  "\<forall>p \<in> set ISO2_TO_ISO3. fst p \<noteq> ''GR'' \<longrightarrow>
      ictwss_country (snd p) = Some (fst p) \<and> ifr_country (fst p) = Some (fst p)
      \<and> klems_country (fst p) = Some (fst p)"
  by (simp add: ifr_country_def klems_country_def ictwss_country_def
      EU_ISO2_def ISO3_TO_ISO2_def ISO2_TO_ISO3_def)

lemma name_part:
  "\<forall>p \<in> set EUROSTAT_GEO_TO_ISO2.
      eurostat_country (fst p) = Some (snd p) \<and> ifr_country (snd p) = Some (snd p)
      \<and> klems_country (snd p) = Some (snd p)
      \<and> (\<exists>t. map_of ISO2_TO_ISO3 (snd p) = Some t \<and> ictwss_country t = Some (snd p))"
  by (simp add: ifr_country_def klems_country_def ictwss_country_def eurostat_country_def
      EU_ISO2_def ISO3_TO_ISO2_def ISO2_TO_ISO3_def EUROSTAT_GEO_TO_ISO2_def)

lemma greek_codes:
  "ifr_country ''GR'' = Some ''GR'' \<and> ifr_country ''EL'' = Some ''EL''
   \<and> klems_country ''GR'' = Some ''GR'' \<and> klems_country ''EL'' = Some ''EL''
   \<and> ictwss_country ''GRC'' = Some ''EL'' \<and> eurostat_country ''Greece'' = Some ''EL''
   \<and> map_of ISO2_TO_ISO3 ''GR'' = Some ''GRC'' \<and> map_of ISO2_TO_ISO3 ''EL'' = Some ''GRC''"
  by (simp add: ifr_country_def klems_country_def ictwss_country_def eurostat_country_def
      EU_ISO2_def ISO3_TO_ISO2_def EUROSTAT_GEO_TO_ISO2_def ISO2_TO_ISO3_def)

lemma greek_ifr_filtered: "ifr_filtered greek_ifr = greek_ifr"
  by (simp add: greek_ifr_def ifr_filtered_def ifr_country_def EU_ISO2_def IFR_TO_NACE_def)

lemma greek_step1:
  "ifr_step1 greek_ifr =
     [\<lparr>country_code = ''GR'', industry_code = ''28'', year = 1995, robot_wrkr_stock_95 = Fin 4,
       ln_robots = Fin (ln 4), ln_robots_lag1 = Fin (ln 2)\<rparr>]"
  unfolding ifr_step1_def ifr_with_lag_def Let_def greek_ifr_filtered
  by (simp add: greek_ifr_def ifr_src.defs ifr_lag.defs ln_robots_col_def
        group_shift1_def prev_in_group_def entity_of_def np_log_def replace0_def
        upt_conv_Cons)

lemma GR_EL_EU: "''GR'' \<in> set EU_ISO2" "''EL'' \<in> set EU_ISO2"
  by (simp_all add: EU_ISO2_def)

lemma greek_baseline:
  "ictwss_baseline greek_ictwss = [\<lparr>b_country_code = ''EL'', b_AdjCov = Some 50, b_Coord = Some 4\<rparr>]"
  by (simp add: ictwss_baseline_def base_years_def greek_ictwss_def ictwss_country_def ISO3_TO_ISO2_def
      EU_ISO2_def List.map_filter_simps safe_mean_def pd_mean_def Let_def)

lemma greek_unmatched:
  "cleaned_data greek_ifr (klems_obs ''EL'' 1995 (Fin 100)) greek_ictwss [] [] = []"
  unfolding cleaned_data_def merged_panel_def greek_step1
    klems_obs_wide [OF GR_EL_EU(2), of "Fin 100", simplified] greek_baseline fx_empty
  by (simp add: merge_inst_def merge_une_def merge_gdp_def merge_klems_def merge_left_def
      merge_inner_def add_nace_def IFR_TO_NACE_def row_defs add_index_def dropna_required_def
      build_vars_def Let_def pd_mean_def)

lemma greek_uncovered:
  "map (\<lambda>r. (country_code r, year r, adjcov r))
       (cleaned_data greek_ifr (klems_obs ''GR'' 1995 (Fin 100)) greek_ictwss [] [])
     = [(''GR'', 1995, None)]"
  unfolding cleaned_data_def merged_panel_def greek_step1
    klems_obs_wide [OF GR_EL_EU(1), of "Fin 100", simplified] greek_baseline fx_empty
  by (simp add: merge_inst_def merge_une_def merge_gdp_def merge_klems_def merge_left_def
      merge_inner_def add_nace_def IFR_TO_NACE_def row_defs add_index_def dropna_required_def
      build_vars_def Let_def np_log_def clip_lower_def pd_mean_def pd_sub_def)

text \<open>
  C7. Greece has two two-letter codes in the tables, and the cleaning script never
  brings them together: the token \<open>GR\<close> passes the filters of the robot source and of
  the growth accounts as \<open>GR\<close>, the token \<open>EL\<close> passes them as \<open>EL\<close>, and the
  three-letter code \<open>GRC\<close> and the name \<open>Greece\<close> give \<open>EL\<close>. The data check's table
  sends both two-letter codes to \<open>GRC\<close>, so both stand for the one country. With robot
  rows coded \<open>GR\<close> and growth accounts coded \<open>EL\<close> no Greek row is written; with both
  coded \<open>GR\<close> the Greek row is written without the coverage that the institutions source
  has for \<open>GRC\<close>.
\<close>

theorem greece_two_codes:
  "ifr_country ''GR'' = Some ''GR'' \<and> ifr_country ''EL'' = Some ''EL''
   \<and> klems_country ''GR'' = Some ''GR'' \<and> klems_country ''EL'' = Some ''EL''
   \<and> ictwss_country ''GRC'' = Some ''EL'' \<and> eurostat_country ''Greece'' = Some ''EL''
   \<and> map_of ISO2_TO_ISO3 ''GR'' = Some ''GRC'' \<and> map_of ISO2_TO_ISO3 ''EL'' = Some ''GRC''
   \<and> ''GR'' \<noteq> ''EL''
   \<and> map country_code greek_ifr = [''GR'', ''GR'']
   \<and> map (\<lambda>r. (iso3 r, i_AdjCov r)) greek_ictwss = [(''GRC'', Some 50)]
   \<and> cleaned_data greek_ifr (klems_obs ''EL'' 1995 (Fin 100)) greek_ictwss [] [] = []
   \<and> map (\<lambda>r. (country_code r, year r, adjcov r))
       (cleaned_data greek_ifr (klems_obs ''GR'' 1995 (Fin 100)) greek_ictwss [] [])
     = [(''GR'', 1995, None)]"
proof -
  have a: "''GR'' \<noteq> ''EL''" by simp
  have b: "map country_code greek_ifr = [''GR'', ''GR'']"
    by (simp add: greek_ifr_def)
  have c: "map (\<lambda>r. (iso3 r, i_AdjCov r)) greek_ictwss = [(''GRC'', Some 50)]"
    by (simp add: greek_ictwss_def)
  from greek_codes a b c greek_unmatched greek_uncovered
  show ?thesis by (intro conjI) (erule conjE | assumption)+
qed

section \<open>Loading\<close>

lemma load_safe_None:
  "load_safe fs rc rx p k = None \<longleftrightarrow>
     (fs p = None \<or> (\<exists>c e. fs p = Some c \<and> (if k = Csv then rc c else rx c) = Inl e))"
  by (auto simp: load_safe_def split: option.splits sum.splits)

lemma load_csv_Inl:
  "load_csv fs r p = Inl e \<longleftrightarrow>
     (fs p = None \<and> e = FileNotFoundError p) \<or> (\<exists>c. fs p = Some c \<and> r c = Inl e)"
  by (auto simp: load_csv_def split: option.splits)

lemma main_Inr:
  "main fs rd = Inr out \<Longrightarrow>
     fs ''IFR_karol.csv'' \<noteq> None \<and> fs ''klems_growth_accounts_basic.csv'' \<noteq> None
     \<and> fs ''ictwss_institutions.csv'' \<noteq> None
     \<and> (fs ''eurostata_gdp_nama_10_gdp.csv'' \<noteq> None \<or> fs ''eurostat_gdp_nama_10_gdp.csv'' \<noteq> None)
     \<and> fs ''eurostat_employment_une_rt_a.csv'' \<noteq> None"
  unfolding main_def
  by (auto simp: load_csv_def split: option.splits sum.splits if_splits)

lemma main_fx:
  "main fx_files fx_readers = Inr (cleaned_data two_ifr two_klems two_ictwss two_euro two_euro)"
  by (simp add: main_def load_csv_def fx_files_def fx_readers_def two_klems_wide has_column_def)

lemma two_euro_first:
  "country_year_first two_euro = [((''AT'', 1995), Fin 300), ((''DE'', 1996), Fin 2000)]"
  by (simp add: country_year_first_def eurostat_keyed_def two_euro_def eurostat_country_def
      EUROSTAT_GEO_TO_ISO2_def EU_ISO2_def List.map_filter_simps first_notna_def Let_def)

lemma main_fx_rows:
  "map (\<lambda>r. (country_code r, year r, ln_hours r, ln_gdp r))
       (cleaned_data two_ifr two_klems two_ictwss two_euro two_euro)
     = [(''DE'', 1996, Fin (ln 100), Fin (ln 2000)), (''AT'', 1995, Fin (ln 100), Fin (ln 300))]"
  unfolding cleaned_data_def merged_panel_def two_step1 two_klems_wide two_baseline two_euro_first
  by (simp add: merge_inst_def merge_une_def merge_gdp_def merge_klems_def merge_left_def
      merge_inner_def add_nace_def IFR_TO_NACE_def row_defs add_index_def dropna_required_def
      build_vars_def Let_def np_log_def clip_lower_def pd_mean_def pd_sub_def)

text \<open>Growth accounts without the labour input: the script stops with \<open>KeyError\<close>.\<close>

lemma main_no_labour: "main fx_files no_labour = Inl (KeyError ''LAB_QI'')"
proof -
  have "klems_wide (filter (\<lambda>r. var r \<noteq> ''LAB_QI'') two_klems) =
     [\<lparr>w_key = (''AT'', ''C28'', 1995), w_LAB_QI = NaN, w_VA_PYP = Fin 100, w_CAP_QI = Fin 100,
       w_CAPICT_QI = NaN, w_CAPNICT_QI = NaN\<rparr>,
      \<lparr>w_key = (''DE'', ''C28'', 1995), w_LAB_QI = NaN, w_VA_PYP = Fin 100, w_CAP_QI = Fin 100,
       w_CAPICT_QI = NaN, w_CAPNICT_QI = NaN\<rparr>,
      \<lparr>w_key = (''DE'', ''C28'', 1996), w_LAB_QI = NaN, w_VA_PYP = Fin 100, w_CAP_QI = Fin 100,
       w_CAPICT_QI = NaN, w_CAPNICT_QI = NaN\<rparr>]"
    by (simp add: klems_wide_def klems_filtered_def klems_country_def EU_ISO2_def vars_needed_def
       two_klems_def klems_key_of_def pivot_cell_def first_notna_def Let_def)
  then show ?thesis
    by (simp add: main_def load_csv_def fx_files_def fx_readers_def no_labour_def has_column_def)
qed

lemma main_none: "main no_files fx_readers = Inl (FileNotFoundError ''IFR_karol.csv'')"
  by (simp add: main_def load_csv_def no_files_def)

text \<open>
  C6. The data check's loader \<open>load_safe\<close> returns the absent value, not an
  exception, exactly when the file is not there or the reader fails. The cleaning
  script's loader \<open>load_csv\<close> raises \<open>FileNotFoundError\<close> on a file that is not there and
  lets the reader's exception through, so \<open>main\<close> returns a panel only when all five
  sources are there, the GDP source under one of its two names.
\<close>

theorem loaders:
  "(load_safe fs rc rx p k = None \<longleftrightarrow>
      (fs p = None \<or> (\<exists>c e. fs p = Some c \<and> (if k = Csv then rc c else rx c) = Inl e)))
   \<and> (load_csv fs r p = Inl e \<longleftrightarrow>
      (fs p = None \<and> e = FileNotFoundError p) \<or> (\<exists>c. fs p = Some c \<and> r c = Inl e))
   \<and> (main fs rd = Inr out \<longrightarrow>
      fs ''IFR_karol.csv'' \<noteq> None \<and> fs ''klems_growth_accounts_basic.csv'' \<noteq> None
      \<and> fs ''ictwss_institutions.csv'' \<noteq> None
      \<and> (fs ''eurostata_gdp_nama_10_gdp.csv'' \<noteq> None \<or> fs ''eurostat_gdp_nama_10_gdp.csv'' \<noteq> None)
      \<and> fs ''eurostat_employment_une_rt_a.csv'' \<noteq> None)"
  using load_safe_None [of fs rc rx p k] load_csv_Inl [of fs r p e] main_Inr [of fs rd out]
  by blast

theorem loaders_witness:
  "main fx_files fx_readers = Inr (cleaned_data two_ifr two_klems two_ictwss two_euro two_euro)
   \<and> map (\<lambda>r. (country_code r, year r, ln_hours r, ln_gdp r))
       (cleaned_data two_ifr two_klems two_ictwss two_euro two_euro)
     = [(''DE'', 1996, Fin (ln 100), Fin (ln 2000)), (''AT'', 1995, Fin (ln 100), Fin (ln 300))]
   \<and> fx_files ''IFR_karol.csv'' \<noteq> None
   \<and> fx_files ''klems_growth_accounts_basic.csv'' \<noteq> None
   \<and> fx_files ''ictwss_institutions.csv'' \<noteq> None
   \<and> fx_files ''eurostat_gdp_nama_10_gdp.csv'' \<noteq> None
   \<and> fx_files ''eurostat_employment_une_rt_a.csv'' \<noteq> None
   \<and> load_safe no_files (read_ifr fx_readers) (read_ifr fx_readers) ''IFR_karol.csv'' Csv = None"
proof -
  note a = loaders [THEN conjunct2, THEN conjunct2, THEN mp, OF main_fx]
  have g: "fx_files ''eurostat_gdp_nama_10_gdp.csv'' \<noteq> None"
    by (simp add: fx_files_def)
  have n: "no_files ''IFR_karol.csv'' = None
           \<or> (\<exists>c e. no_files ''IFR_karol.csv'' = Some c
                  \<and> (if Csv = Csv then read_ifr fx_readers c else read_ifr fx_readers c) = Inl e)"
    by (simp add: no_files_def)
  note b = loaders [where fs = no_files and rc = "read_ifr fx_readers"
      and rx = "read_ifr fx_readers" and p = "''IFR_karol.csv''" and k = Csv,
      THEN conjunct1, THEN iffD2, OF n]
  from main_fx main_fx_rows a b g show ?thesis by (intro conjI) (erule conjE | assumption)+
qed

text \<open>
  C6 as stated fails for the cleaning script: with a source missing, \<open>load_csv\<close> raises
  and \<open>main\<close> ends with the exception.
\<close>

theorem load_csv_raises:
  "load_csv no_files (read_ifr fx_readers) ''IFR_karol.csv'' = Inl (FileNotFoundError ''IFR_karol.csv'')
   \<and> main no_files fx_readers = Inl (FileNotFoundError ''IFR_karol.csv'')"
  using main_none by (simp add: load_csv_def no_files_def)

section \<open>The centring constant\<close>

lemma set_drop_duplicates_seen: "set (drop_duplicates_seen seen key xs) \<subseteq> set xs"
  by (induction xs arbitrary: seen) auto

lemma set_fold_dropna: "set (fold (\<lambda>c df. dropna_subset [c] df) cs df) \<subseteq> set df"
proof (induction cs arbitrary: df)
  case Nil
  then show ?case by simp
next
  case (Cons c cs)
  have "set (fold (\<lambda>c df. dropna_subset [c] df) cs (dropna_subset [c] df)) \<subseteq> set (dropna_subset [c] df)"
    by (rule Cons.IH)
  also have "\<dots> \<subseteq> set df" by (auto simp: dropna_subset_def)
  finally show ?case by simp
qed

lemma set_model_rows: "set (model_rows df_raw) \<subseteq> set df_raw"
proof -
  have "set (prepare_panel df_raw req) \<subseteq> set df_raw"
    using set_drop_duplicates_seen [of "[]" panel_index "dropna_subset req df_raw"]
    by (auto simp: prepare_panel_def drop_duplicates_def dropna_subset_def)
  with set_fold_dropna [of "get_controls df_raw" "prepare_panel df_raw req"]
    set_drop_duplicates_seen [of "[]" panel_index
       "fold (\<lambda>c df. dropna_subset [c] df) (get_controls df_raw) (prepare_panel df_raw req)"]
  show ?thesis unfolding model_rows_def drop_duplicates_def by blast
qed

lemma model_sample_True: "set (model_sample True df_raw) \<subseteq> set df_raw"
  using set_model_rows [of df_raw] by (auto simp: model_sample_def Let_def)

lemma cleaned_centered:
  assumes "r \<in> set (cleaned_data ifr klems ictwss G U)"
  shows "adjcov_centered r
           = pd_sub (adjcov r) (pd_mean (map AdjCov (merged_panel ifr klems ictwss G U)))"
proof -
  from assms obtain v where v: "v \<in> set (build_vars (merged_panel ifr klems ictwss G U))"
    and rv: "df_vars.truncate r = v"
    unfolding cleaned_data_def add_index_def dropna_required_def by (auto simp: row_defs)
  from v have "adjcov_centered v
           = pd_sub (adjcov v) (pd_mean (map AdjCov (merged_panel ifr klems ictwss G U)))"
    unfolding build_vars_def Let_def by (auto simp: row_defs)
  with rv show ?thesis by (auto simp: row_defs)
qed

lemma model_sample_False:
  assumes "r \<in> set (model_sample False df_raw)"
  shows "adjcov_centered r = pd_sub (adjcov r) (pd_mean (map adjcov (model_rows df_raw)))"
  using assms by (auto simp: model_sample_def Let_def)

lemma uncentred_eval:
  "map adjcov uncentred_file = [Some 10, Some 30]
   \<and> pd_mean (map adjcov uncentred_file) = Some 20
   \<and> map adjcov (model_sample False uncentred_file) = [Some 10]
   \<and> map adjcov_centered (model_sample False uncentred_file) = [Some 0]"
  by (simp add: uncentred_file_def sample_row_def model_sample_def model_rows_def prepare_panel_def
      drop_duplicates_def dropna_subset_def req_def col_isna_def get_controls_def panel_index_def
      pd_mean_def pd_sub_def Let_def)


lemma two_mean:
  "pd_mean (map AdjCov (merged_panel two_ifr two_klems two_ictwss [] [])) = Some (245 / 3)"
proof -
  have "map AdjCov (merged_panel two_ifr two_klems two_ictwss [] [])
          = map (\<lambda>t. snd (snd (snd (snd t))))
              (map (\<lambda>r. (country_code r, year r, ln_robots_lag1 r, LAB_QI r, AdjCov r))
                 (merged_panel two_ifr two_klems two_ictwss [] []))"
    by (simp add: comp_def)
  then show ?thesis unfolding two_merged by (simp add: pd_mean_def)
qed

lemma two_sample:
  "map country_code (model_sample True (cleaned_data two_ifr two_klems two_ictwss [] []))
     = [''AT'', ''DE'']
   \<and> map adjcov_centered (model_sample True (cleaned_data two_ifr two_klems two_ictwss [] []))
     = [Some (95 - 245 / 3), Some (75 - 245 / 3)]"
  unfolding cleaned_data_def merged_panel_def two_step1 two_klems_wide two_baseline fx_empty
  by (simp add: merge_inst_def merge_une_def merge_gdp_def merge_klems_def merge_left_def
      merge_inner_def add_nace_def IFR_TO_NACE_def row_defs add_index_def dropna_required_def
      build_vars_def Let_def np_log_def clip_lower_def pd_mean_def pd_sub_def
      model_sample_def model_rows_def prepare_panel_def
      drop_duplicates_def dropna_subset_def req_def col_isna_def get_controls_def panel_index_def
      del: not_None_eq)

text \<open>
  C8. The cleaning script centres coverage on one constant, the mean of the
  non-missing coverage over the whole merged frame, taken before any row is dropped.
  When the cleaned file carries the centred column, as the cleaning script always writes
  it, every row of the sample of the industry-by-industry model, and so every
  industry's subset, has that constant in effect. When the file lacks the column, the
  model centres on the mean over its own filtered sample, still one constant for all
  industries.
\<close>

theorem centering_constant:
  "(\<forall>r \<in> set (cleaned_data ifr klems ictwss G U).
      adjcov_centered r = pd_sub (adjcov r) (pd_mean (map AdjCov (merged_panel ifr klems ictwss G U))))
   \<and> (\<forall>r \<in> set (model_sample True (cleaned_data ifr klems ictwss G U)).
      adjcov_centered r = pd_sub (adjcov r) (pd_mean (map AdjCov (merged_panel ifr klems ictwss G U))))
   \<and> (\<forall>r \<in> set (model_sample False df_raw).
      adjcov_centered r = pd_sub (adjcov r) (pd_mean (map adjcov (model_rows df_raw))))"
  using cleaned_centered [of _ ifr klems ictwss G U]
    model_sample_True [of "cleaned_data ifr klems ictwss G U"]
    model_sample_False [of _ df_raw]
  by blast

theorem centering_constant_witness:
  "map adjcov (cleaned_data two_ifr two_klems two_ictwss [] []) = [Some 75, Some 95]
   \<and> map adjcov_centered (cleaned_data two_ifr two_klems two_ictwss [] [])
       = [Some (75 - 245 / 3), Some (95 - 245 / 3)]
   \<and> pd_mean (map AdjCov (merged_panel two_ifr two_klems two_ictwss [] [])) = Some (245 / 3)
   \<and> map country_code (model_sample True (cleaned_data two_ifr two_klems two_ictwss [] []))
       = [''AT'', ''DE'']
   \<and> map adjcov_centered (model_sample True (cleaned_data two_ifr two_klems two_ictwss [] []))
       = [Some (95 - 245 / 3), Some (75 - 245 / 3)]
   \<and> map adjcov_centered (model_sample False uncentred_file) = [Some 0]"
proof -
  note centering_constant [of two_ifr two_klems two_ictwss "[]" "[]" uncentred_file]
  with two_cleaned two_mean two_sample uncentred_eval show ?thesis by simp
qed

text \<open>
  C8 as stated fails on a cleaned file without the centred column: the constant in
  effect is the mean over the filtered sample, 10, and not the mean over the whole
  file, 20.
\<close>

theorem centring_recomputed_on_sample:
  "map adjcov uncentred_file = [Some 10, Some 30]
   \<and> pd_mean (map adjcov uncentred_file) = Some 20
   \<and> map adjcov (model_sample False uncentred_file) = [Some 10]
   \<and> map adjcov_centered (model_sample False uncentred_file) = [Some 0]
   \<and> pd_sub (Some 10) (Some 20) = Some (- 10)"
proof -
  have p: "pd_sub (Some 10) (Some 20) = Some (- 10)"
    by (simp add: pd_sub_def)
  from uncentred_eval p show ?thesis by (intro conjI) (erule conjE | assumption)+
qed

section \<open>The usability gate\<close>

lemma dropna_vals_append: "dropna_vals (xs @ ys) = dropna_vals xs @ dropna_vals ys"
  by (induction xs rule: dropna_vals.induct) simp_all

lemma dropna_vals_replicate: "dropna_vals (replicate n (Some x)) = replicate n x"
  by (induction n) simp_all








































end
